theory Spec2Isabelle
  imports Complex_Main
begin

section \<open>Go types and values as the reflect package shows them\<close>

text \<open>
  \<^verbatim>\<open>rest.go\<close> inspects a handler through \<^verbatim>\<open>reflect\<close>: it compares types for identity
  (\<^verbatim>\<open>pt == contextType\<close>), switches on \<^verbatim>\<open>pt.Kind()\<close> and builds \<^verbatim>\<open>reflect.Value\<close>s.
  A type is one of Go's predeclared scalar types, a defined type over another type
  (\<^verbatim>\<open>type StatusCode int\<close>), an interface or struct type (by its name), or a pointer.
\<close>

datatype kind =
    KBool | KInt | KInt8 | KInt16 | KInt32 | KInt64
  | KUint | KUint8 | KUint16 | KUint32 | KUint64
  | KFloat32 | KFloat64 | KString | KInterface | KStruct | KPtr

datatype gotype =
    Basic kind
  | Named string gotype
  | Iface string
  | Struct string
  | PtrTo gotype

fun Kind :: "gotype \<Rightarrow> kind" where
  "Kind (Basic k) = k"
| "Kind (Named n u) = Kind u"
| "Kind (Iface n) = KInterface"
| "Kind (Struct n) = KStruct"
| "Kind (PtrTo t) = KPtr"

text \<open>\<^verbatim>\<open>Type.Elem()\<close> of a pointer type; \<^verbatim>\<open>rest.go\<close> calls it only when the kind is \<^verbatim>\<open>Ptr\<close>.\<close>

fun Elem :: "gotype \<Rightarrow> gotype" where
  "Elem (PtrTo t) = t"
| "Elem (Named n u) = Elem u"
| "Elem t = t"

text \<open>The package-level type variables of \<^verbatim>\<open>rest.go\<close> (lines 13 to 29) and \<^verbatim>\<open>StatusCode\<close>.\<close>

definition errorType :: gotype where "errorType = Iface ''error''"
definition contextType :: gotype where "contextType = Iface ''context.Context''"
definition requestType :: gotype where "requestType = PtrTo (Struct ''http.Request'')"
definition intType :: gotype where "intType = Basic KInt"
definition int8Type :: gotype where "int8Type = Basic KInt8"
definition int16Type :: gotype where "int16Type = Basic KInt16"
definition int32Type :: gotype where "int32Type = Basic KInt32"
definition int64Type :: gotype where "int64Type = Basic KInt64"
definition uintType :: gotype where "uintType = Basic KUint"
definition uint8Type :: gotype where "uint8Type = Basic KUint8"
definition uint16Type :: gotype where "uint16Type = Basic KUint16"
definition uint32Type :: gotype where "uint32Type = Basic KUint32"
definition uint64Type :: gotype where "uint64Type = Basic KUint64"
definition float32Type :: gotype where "float32Type = Basic KFloat32"
definition float64Type :: gotype where "float64Type = Basic KFloat64"
definition stringType :: gotype where "stringType = Basic KString"
definition statusCodeType :: gotype where "statusCodeType = Named ''rest.StatusCode'' (Basic KInt)"
definition errorResponsePtrType :: gotype where
  "errorResponsePtrType = PtrTo (Struct ''rest.ErrorResponse'')"

text \<open>
  Errors. \<^verbatim>\<open>*ErrorResponse\<close> is the structured error of the package; \<^verbatim>\<open>*strconv.NumError\<close>
  is what the numeric parsers return (function, input, cause); every other error value
  is kept by its \<^verbatim>\<open>Error()\<close> text.
\<close>

datatype numErr = ErrSyntax | ErrRange

datatype goerror =
    ErrorResponse int string
  | NumError string string numErr
  | Errorf string

text \<open>
  What a \<^verbatim>\<open>reflect.Value\<close> holds: \<open>Nil\<close> is a nil pointer or a nil interface, \<open>Z\<close> the
  zero value of the type (what \<^verbatim>\<open>reflect.New\<close> points to), \<open>I\<close> an
  integer of any width or signedness, \<open>F\<close> a finite float by the number it denotes, \<open>E\<close>
  an error, \<open>Ctx\<close> and \<open>Req\<close> the request's context and the request itself, \<open>Obj\<close> any
  other value by its JSON text. \<open>Zero\<close> is the zero \<^verbatim>\<open>reflect.Value{}\<close>, which holds
  nothing and has no type.
\<close>

datatype data = Nil | Z | I int | F real | S string | E goerror | Ctx | Req | Obj string

datatype rvalue = Zero | Value gotype data

section \<open>strconv: ParseUint and ParseInt in base 10\<close>

text \<open>
  Go's \<^verbatim>\<open>strconv.ParseUint(s, 10, bitSize)\<close> and \<^verbatim>\<open>strconv.ParseInt(s, 10, bitSize)\<close>, as
  the standard library defines them, on \<open>uint64\<close> written as \<open>nat\<close> with the wrap-around
  at \<open>2 ^ 64\<close> written out. Both return the value and the error, as the Go functions do.
\<close>

definition maxUint64 :: nat where "maxUint64 = 2 ^ 64 - 1"

definition is_digit :: "char \<Rightarrow> bool" where
  "is_digit c = (48 \<le> (of_char c :: nat) \<and> (of_char c :: nat) \<le> 57)"

definition digit_val :: "char \<Rightarrow> nat" where
  "digit_val c = (of_char c :: nat) - 48"

fun ParseUint_loop :: "nat \<Rightarrow> nat \<Rightarrow> string \<Rightarrow> nat \<times> numErr option" where
  "ParseUint_loop maxVal n [] = (n, None)"
| "ParseUint_loop maxVal n (c # cs) =
     (if is_digit c then
        (if n \<ge> maxUint64 div 10 + 1 then (maxVal, Some ErrRange)
         else
           (let n' = (n * 10) mod 2 ^ 64;
                n1 = (n' + digit_val c) mod 2 ^ 64
            in if n1 < n' \<or> n1 > maxVal then (maxVal, Some ErrRange)
               else ParseUint_loop maxVal n1 cs))
      else (0, Some ErrSyntax))"

definition ParseUint :: "string \<Rightarrow> nat \<Rightarrow> nat \<times> numErr option" where
  "ParseUint s bitSize =
     (if s = [] then (0, Some ErrSyntax)
      else ParseUint_loop (2 ^ bitSize - 1) 0 s)"

definition ParseInt :: "string \<Rightarrow> nat \<Rightarrow> int \<times> numErr option" where
  "ParseInt s bitSize =
     (if s = [] then (0, Some ErrSyntax)
      else
        (let neg = (hd s = CHR ''-'');
             s1 = (if hd s = CHR ''+'' \<or> hd s = CHR ''-'' then tl s else s);
             (un, err) = ParseUint s1 bitSize
         in if err = Some ErrSyntax then (0, err)
            else
              (let cutoff = (2 :: nat) ^ (bitSize - 1)
               in if \<not> neg \<and> un \<ge> cutoff then (int cutoff - 1, Some ErrRange)
                  else if neg \<and> un > cutoff then (- int cutoff, Some ErrRange)
                  else (if neg then - int un else int un, None))))"

section \<open>Requests and the parts of the standard library left as parameters\<close>

text \<open>
  A request as the handler pipeline reads it: the method, the URL's query values (the
  \<^verbatim>\<open>pat\<close> multiplexer stores the captured segment of \<^verbatim>\<open>:name\<close> under the key \<^verbatim>\<open>":name"\<close>)
  and the payload.
\<close>

record request =
  Method :: string
  Query :: "(string \<times> string) list"
  Body :: string

text \<open>\<^verbatim>\<open>url.Values.Get\<close>: the first value of the key, or the empty string.\<close>

definition Query_Get :: "request \<Rightarrow> string \<Rightarrow> string" where
  "Query_Get r key = (case map_of (Query r) key of None \<Rightarrow> [] | Some v \<Rightarrow> v)"

text \<open>
  \<^verbatim>\<open>strconv.ParseFloat\<close>, \<^verbatim>\<open>strconv.Quote\<close>, the JSON decoder on a non-empty payload, the
  JSON text of a value that is not nil and the method sets of types are not modelled:
  they are fields of a record that every definition using them takes as its first
  argument. \<open>ParseFloat s bitSize\<close> is the parsed number or the cause of the
  \<^verbatim>\<open>NumError\<close>; \<open>Unmarshal payload t\<close> is what decoding into a fresh value of type \<open>t\<close>
  leaves there together with the decoder's error (a type's own \<^verbatim>\<open>UnmarshalJSON\<close> may
  return any error); \<open>Marshal v\<close> is the JSON text of \<open>v\<close>; \<open>Implements v t\<close> says whether
  the type \<open>v\<close> has the methods of the interface type \<open>t\<close>.
\<close>

record stdlib =
  ParseFloat :: "string \<Rightarrow> nat \<Rightarrow> numErr + real"
  Quote :: "string \<Rightarrow> string"
  Unmarshal :: "string \<Rightarrow> gotype \<Rightarrow> data \<times> goerror option"
  Marshal :: "rvalue \<Rightarrow> string"
  Implements :: "gotype \<Rightarrow> gotype \<Rightarrow> bool"

section \<open>Path-parameter binders\<close>

datatype panic =
    NoReturnValues
  | LastReturnNotError
  | ArgumentsRemaining
  | UnsupportedPathParameterType
  | CallArgumentCount
  | CallZeroValue
  | CallNotAssignable
  | IntOfNonInt
  | NotAnError
  | InvalidWriteHeaderCode int

type_synonym paramBuilder = "request \<Rightarrow> rvalue \<times> goerror option"

text \<open>
  The closures of \<^verbatim>\<open>pathParamBuilder\<close> (lines 218 to 346). \<open>int_param\<close> is the body of
  the five signed cases: \<^verbatim>\<open>v\<close> is assigned on success. \<open>uint_param\<close> is the body of
  the five unsigned cases: there \<^verbatim>\<open>v := reflect.New(...).Elem()\<close> declares a new
  variable inside the \<^verbatim>\<open>if\<close>, so the \<^verbatim>\<open>v\<close> that is returned is still the zero Value.
\<close>

definition string_param :: "string \<Rightarrow> paramBuilder" where
  "string_param paramName = (\<lambda>r. (Value stringType (S (Query_Get r (CHR '':'' # paramName))), None))"

definition float_param :: "stdlib \<Rightarrow> gotype \<Rightarrow> nat \<Rightarrow> string \<Rightarrow> paramBuilder" where
  "float_param L t bitSize paramName = (\<lambda>r.
     (let s = Query_Get r (CHR '':'' # paramName)
      in case ParseFloat L s bitSize of
           Inr n \<Rightarrow> (Value t (F n), None)
         | Inl e \<Rightarrow> (Zero, Some (NumError ''ParseFloat'' s e))))"

definition int_param :: "gotype \<Rightarrow> nat \<Rightarrow> string \<Rightarrow> paramBuilder" where
  "int_param t bitSize paramName = (\<lambda>r.
     (let s = Query_Get r (CHR '':'' # paramName);
          (n, err) = ParseInt s bitSize
      in case err of
           None \<Rightarrow> (Value t (I n), None)
         | Some e \<Rightarrow> (Zero, Some (NumError ''ParseInt'' s e))))"

definition uint_param :: "gotype \<Rightarrow> nat \<Rightarrow> string \<Rightarrow> paramBuilder" where
  "uint_param t bitSize paramName = (\<lambda>r.
     (let v = Zero;
          s = Query_Get r (CHR '':'' # paramName);
          (n, err) = ParseUint s bitSize
      in case err of
           None \<Rightarrow> (let v1 = Value t (I (int n)) in (v, None))
         | Some e \<Rightarrow> (v, Some (NumError ''ParseUint'' s e))))"

definition pathParamBuilder :: "stdlib \<Rightarrow> gotype \<Rightarrow> string \<Rightarrow> nat \<Rightarrow> panic + paramBuilder" where
  "pathParamBuilder L pt paramName paramIndex =
     (case Kind pt of
        KString \<Rightarrow> Inr (string_param paramName)
      | KFloat32 \<Rightarrow> Inr (float_param L float32Type 32 paramName)
      | KFloat64 \<Rightarrow> Inr (float_param L float64Type 64 paramName)
      | KInt \<Rightarrow> Inr (int_param intType 64 paramName)
      | KInt8 \<Rightarrow> Inr (int_param int8Type 8 paramName)
      | KInt16 \<Rightarrow> Inr (int_param int16Type 16 paramName)
      | KInt32 \<Rightarrow> Inr (int_param int32Type 32 paramName)
      | KInt64 \<Rightarrow> Inr (int_param int64Type 64 paramName)
      | KUint \<Rightarrow> Inr (uint_param uintType 64 paramName)
      | KUint8 \<Rightarrow> Inr (uint_param uint8Type 8 paramName)
      | KUint16 \<Rightarrow> Inr (uint_param uint16Type 16 paramName)
      | KUint32 \<Rightarrow> Inr (uint_param uint32Type 32 paramName)
      | KUint64 \<Rightarrow> Inr (uint_param uint64Type 64 paramName)
      | _ \<Rightarrow> Inl UnsupportedPathParameterType)"


section \<open>The protocol and the default JSON protocol\<close>

text \<open>
  What the pipeline observes of an \<^verbatim>\<open>http.ResponseWriter\<close>: the header fields added, the
  codes passed to \<^verbatim>\<open>WriteHeader\<close> and the values passed to the JSON encoder, each in
  the order of the calls. A value is \<open>None\<close> for the nil interface.
\<close>

record response_writer =
  Header :: "(string \<times> string) list"
  Status :: "int list"
  Written :: "rvalue option list"

text \<open>
  \<^verbatim>\<open>w.WriteHeader(code)\<close>: the writers of \<^verbatim>\<open>net/http\<close> panic on a code below 100 or above
  999 (\<^verbatim>\<open>checkWriteHeaderCode\<close>).
\<close>

definition WriteHeader :: "response_writer \<Rightarrow> int \<Rightarrow> panic + response_writer" where
  "WriteHeader w code =
     (if code < 100 \<or> 999 < code then Inl (InvalidWriteHeaderCode code)
      else Inr (w\<lparr>Status := Status w @ [code]\<rparr>))"



text \<open>
  The server half of the \<^verbatim>\<open>Protocol\<close> interface. \<open>DecodeClientRequest req t\<close> decodes
  into a fresh value of type \<open>t\<close> (the Go method is handed the pointer to it) and
  returns what it left there with its error. \<open>EncodeServerResponse\<close> ends in a panic or
  leaves the writer as it wrote to it; the error it returns is dropped by every caller
  in \<^verbatim>\<open>rest.go\<close> and is not kept.
\<close>

record protocol =
  DecodeClientRequest :: "request \<Rightarrow> gotype \<Rightarrow> data \<times> goerror option"
  EncodeServerResponse ::
    "request \<Rightarrow> response_writer \<Rightarrow> int \<Rightarrow> goerror option \<Rightarrow> rvalue option
       \<Rightarrow> panic + response_writer"

definition StatusOK :: int where "StatusOK = 200"
definition StatusCreated :: int where "StatusCreated = 201"
definition StatusNoContent :: int where "StatusNoContent = 204"
definition StatusUnprocessableEntity :: int where "StatusUnprocessableEntity = 422"
definition StatusInternalServerError :: int where "StatusInternalServerError = 500"

text \<open>Decimal digits of a number, for \<^verbatim>\<open>fmt.Sprintf("%d: %s", e.Status, e.Message)\<close>.\<close>

fun digits :: "nat \<Rightarrow> string" where
  "digits n = (if n < 10 then [char_of (48 + n)] else digits (n div 10) @ [char_of (48 + n mod 10)])"

declare digits.simps [simp del]

definition Itoa :: "int \<Rightarrow> string" where
  "Itoa i = (if i < 0 then CHR ''-'' # digits (nat (- i)) else digits (nat i))"

text \<open>The \<^verbatim>\<open>Error()\<close> method of each error value.\<close>

fun Error :: "stdlib \<Rightarrow> goerror \<Rightarrow> string" where
  "Error L (ErrorResponse st msg) = Itoa st @ '': '' @ msg"
| "Error L (NumError fn num e) =
     ''strconv.'' @ fn @ '': parsing '' @ Quote L num @ '': '' @
       (case e of ErrSyntax \<Rightarrow> ''invalid syntax'' | ErrRange \<Rightarrow> ''value out of range'')"
| "Error L (Errorf s) = s"

text \<open>
  \<^verbatim>\<open>json.NewDecoder(req.Body).Decode(v)\<close>: on an empty payload the decoder returns
  \<^verbatim>\<open>io.EOF\<close> and leaves the value untouched; any other payload is the parameter's.
\<close>

definition default_DecodeClientRequest :: "stdlib \<Rightarrow> request \<Rightarrow> gotype \<Rightarrow> data \<times> goerror option" where
  "default_DecodeClientRequest L req t =
     (if Body req = [] then (Z, Some (Errorf ''EOF'')) else Unmarshal L (Body req) t)"

text \<open>
  \<^verbatim>\<open>defaultProtocol.EncodeServerResponse\<close>. The first equation is the \<^verbatim>\<open>err != nil\<close>
  branch with its recursive call; the second is the rest of the function: the header is
  added, \<^verbatim>\<open>WriteHeader\<close> is called and, unless that panicked, the encoder runs on \<open>v\<close>.
  An \<open>ErrorResponse\<close> error is a \<^verbatim>\<open>*ErrorResponse\<close> that is not a nil pointer.
\<close>

function default_EncodeServerResponse ::
  "stdlib \<Rightarrow> request \<Rightarrow> response_writer \<Rightarrow> int \<Rightarrow> goerror option \<Rightarrow> rvalue option
     \<Rightarrow> panic + response_writer" where
  "default_EncodeServerResponse L req w code (Some err) v =
     (case err of
        ErrorResponse st msg \<Rightarrow>
          default_EncodeServerResponse L req w st None
            (Some (Value errorResponsePtrType (E (ErrorResponse st msg))))
      | _ \<Rightarrow>
          (let code1 = (if code = 0 then StatusInternalServerError else code);
               response = ErrorResponse code1 (Error L err)
           in default_EncodeServerResponse L req w code1 None
                (Some (Value errorResponsePtrType (E response)))))"
| "default_EncodeServerResponse L req w code None v =
     (let code1 =
        (if code = 0 then
           (if Method req = ''POST'' then StatusCreated
            else if v = None then StatusNoContent
            else StatusOK)
         else code)
      in case WriteHeader (w\<lparr>Header := Header w @ [(''Content-Type'', ''application/json'')]\<rparr>) code1 of
           Inl p \<Rightarrow> Inl p
         | Inr w1 \<Rightarrow> Inr (w1\<lparr>Written := Written w1 @ [v]\<rparr>))"
  by pat_completeness auto

termination default_EncodeServerResponse
  by (relation "measure (\<lambda>(L, req, w, code, err, v). case err of None \<Rightarrow> 0 | Some e \<Rightarrow> 1)") auto

definition DefaultProtocol :: "stdlib \<Rightarrow> protocol" where
  "DefaultProtocol L =
     \<lparr>DecodeClientRequest = default_DecodeClientRequest L,
      EncodeServerResponse = default_EncodeServerResponse L\<rparr>"

section \<open>Calling a handler through reflection\<close>

text \<open>
  A handler function as \<^verbatim>\<open>reflect\<close> sees it: its parameter types, its result types and
  what it computes; \<open>Impl f args k\<close> is what the \<open>k\<close>-th result holds.
\<close>

record func =
  In :: "gotype list"
  Out :: "gotype list"
  Impl :: "rvalue list \<Rightarrow> nat \<Rightarrow> data"

fun Type :: "rvalue \<Rightarrow> gotype option" where
  "Type (Value t d) = Some t"
| "Type Zero = None"

text \<open>
  Go's assignability of a value of type \<open>v\<close> to type \<open>t\<close>: the types are identical; or
  their underlying types are identical and one of them is not a defined type (of the
  types here only the pointer types \<^verbatim>\<open>*T\<close> are not defined types); or \<open>t\<close> is an interface
  type that \<open>v\<close> implements.
\<close>

fun underlying :: "gotype \<Rightarrow> gotype" where
  "underlying (Named n u) = underlying u"
| "underlying t = t"

fun defined_type :: "gotype \<Rightarrow> bool" where
  "defined_type (PtrTo t) = False"
| "defined_type t = True"

definition AssignableTo :: "stdlib \<Rightarrow> gotype \<Rightarrow> gotype \<Rightarrow> bool" where
  "AssignableTo L v t =
     (v = t
      \<or> (underlying v = underlying t \<and> \<not> (defined_type v \<and> defined_type t))
      \<or> (Kind t = KInterface \<and> Implements L v t))"

fun assignable :: "stdlib \<Rightarrow> rvalue \<Rightarrow> gotype \<Rightarrow> bool" where
  "assignable L (Value v d) t = AssignableTo L v t"
| "assignable L Zero t = False"

text \<open>
  \<^verbatim>\<open>reflect.Value.Call\<close> panics on a wrong number of arguments, on a zero Value and on
  an argument whose type is not assignable to the parameter's; otherwise the results
  come back with the declared result types. The value a binder makes for a
  \<^verbatim>\<open>context.Context\<close> parameter is given that interface type here.
\<close>

definition Call :: "stdlib \<Rightarrow> func \<Rightarrow> rvalue list \<Rightarrow> panic + rvalue list" where
  "Call L f args =
     (if length args \<noteq> length (In f) then Inl CallArgumentCount
      else if Zero \<in> set args then Inl CallZeroValue
      else if \<not> list_all2 (assignable L) args (In f) then Inl CallNotAssignable
      else Inr (map (\<lambda>k. Value (Out f ! k) (Impl f args k)) [0..<length (Out f)]))"

text \<open>
  \<^verbatim>\<open>Value.Interface()\<close>: the nil interface for a nil value of interface type, the value
  boxed otherwise (a nil pointer too). It is applied to results of \<open>Call\<close> only, which
  are never the zero Value.
\<close>

fun Interface :: "rvalue \<Rightarrow> rvalue option" where
  "Interface (Value t d) = (if Kind t = KInterface \<and> d = Nil then None else Some (Value t d))"
| "Interface Zero = None"

text \<open>The type assertion \<^verbatim>\<open>err.(error)\<close>.\<close>

fun as_error :: "rvalue \<Rightarrow> panic + goerror" where
  "as_error (Value t (E e)) = Inr e"
| "as_error v = Inl NotAnError"

text \<open>\<^verbatim>\<open>Value.Int()\<close> panics unless the kind is one of the five signed integer kinds.\<close>

definition is_int_kind :: "kind \<Rightarrow> bool" where
  "is_int_kind k = (k = KInt \<or> k = KInt8 \<or> k = KInt16 \<or> k = KInt32 \<or> k = KInt64)"

fun Value_Int :: "rvalue \<Rightarrow> panic + int" where
  "Value_Int (Value t (I n)) = (if is_int_kind (Kind t) then Inr n else Inl IntOfNonInt)"
| "Value_Int v = Inl IntOfNonInt"


section \<open>The router, registration and the dispatcher\<close>

text \<open>
  What a run of a dispatcher did, in order: the binder of which parameter ran, the
  handler was called with which arguments, the protocol was asked to encode which
  status, error and body.
\<close>

datatype event = Bind nat | Invoke "rvalue list" | Encode int "goerror option" "rvalue option"

text \<open>
  An \<^verbatim>\<open>http.HandlerFunc\<close>: from the writer and the request to the trace of the run and
  either the panic that ended it or the writer as the run left it.
\<close>

type_synonym HandlerFunc = "response_writer \<Rightarrow> request \<Rightarrow> event list \<times> (panic + response_writer)"

record route =
  route_method :: string
  route_path :: string
  route_handler :: func

text \<open>The \<^verbatim>\<open>pat\<close> multiplexer is kept as the list of what was added to it.\<close>

record Router =
  router :: "(string \<times> string \<times> HandlerFunc) list"
  protocol :: protocol
  routes :: "route list"

definition New :: "stdlib \<Rightarrow> (Router \<Rightarrow> Router) list \<Rightarrow> Router" where
  "New L options = fold (\<lambda>option r. option r) options
     \<lparr>router = [], protocol = DefaultProtocol L, routes = []\<rparr>"

definition WithProtocol :: "protocol \<Rightarrow> Router \<Rightarrow> Router" where
  "WithProtocol p = (\<lambda>r. r\<lparr>protocol := p\<rparr>)"

definition returnError ::
  "Router \<Rightarrow> request \<Rightarrow> response_writer \<Rightarrow> int \<Rightarrow> goerror \<Rightarrow> panic + response_writer" where
  "returnError r req w code err = EncodeServerResponse (protocol r) req w code (Some err) None"

text \<open>\<^verbatim>\<open>strings.Split(path, "/")\<close> and the loop collecting the names of the \<^verbatim>\<open>:name\<close> parts.\<close>

fun Split :: "string \<Rightarrow> char \<Rightarrow> string list" where
  "Split [] sep = [[]]"
| "Split (c # cs) sep =
     (if c = sep then [] # Split cs sep
      else (case Split cs sep of [] \<Rightarrow> [[c]] | part # parts \<Rightarrow> (c # part) # parts))"

definition path_params :: "string \<Rightarrow> string list" where
  "path_params pth = map tl (filter (\<lambda>part. take 1 part = '':'') (Split pth CHR ''/''))"

text \<open>The three closures that \<^verbatim>\<open>buildHandler\<close> itself makes (lines 143 to 167).\<close>

definition context_param :: paramBuilder where
  "context_param = (\<lambda>r. (Value contextType Ctx, None))"

definition request_param :: paramBuilder where
  "request_param = (\<lambda>r. (Value requestType Req, None))"

definition body_param :: "Router \<Rightarrow> gotype \<Rightarrow> paramBuilder" where
  "body_param r pt = (\<lambda>req.
     (case DecodeClientRequest (protocol r) req pt of (d, err) \<Rightarrow> (Value (PtrTo pt) d, err)))"

text \<open>
  The loop over the handler's parameters (lines 140 to 173), on the parameter types
  still to do, with the loop's variables \<^verbatim>\<open>paramIndex\<close>, \<^verbatim>\<open>haveBody\<close> and \<^verbatim>\<open>builders\<close>.
\<close>

fun build_params ::
  "stdlib \<Rightarrow> Router \<Rightarrow> string list \<Rightarrow> gotype list \<Rightarrow> nat \<Rightarrow> bool \<Rightarrow> paramBuilder list
     \<Rightarrow> panic + paramBuilder list" where
  "build_params L r params [] paramIndex haveBody builders = Inr builders"
| "build_params L r params (pt # pts) paramIndex haveBody builders =
     (if pt = contextType then
        build_params L r params pts paramIndex haveBody (builders @ [context_param])
      else if pt = requestType then
        build_params L r params pts paramIndex haveBody (builders @ [request_param])
      else if paramIndex < length params then
        (case pathParamBuilder L pt (params ! paramIndex) paramIndex of
           Inl p \<Rightarrow> Inl p
         | Inr builder \<Rightarrow>
             build_params L r params pts (Suc paramIndex) haveBody (builders @ [builder]))
      else if haveBody then Inl ArgumentsRemaining
      else
        build_params L r params pts paramIndex True
          (builders @ [body_param r (if Kind pt = KPtr then Elem pt else pt)]))"

text \<open>The loop running the binders (lines 178 to 184): it stops at the first error.\<close>

fun run_builders :: "paramBuilder list \<Rightarrow> nat \<Rightarrow> request \<Rightarrow> event list \<times> (goerror + rvalue list)" where
  "run_builders [] i req = ([], Inr [])"
| "run_builders (builder # builders) i req =
     (case builder req of
        (v, Some err) \<Rightarrow> ([Bind i], Inl err)
      | (v, None) \<Rightarrow>
          (case run_builders builders (Suc i) req of
             (tr, Inl err) \<Rightarrow> (Bind i # tr, Inl err)
           | (tr, Inr params) \<Rightarrow> (Bind i # tr, Inr (v # params))))"

text \<open>
  The \<^verbatim>\<open>switch len(ret)\<close> (lines 186 to 214). With four or more results no case
  applies and nothing is written. A panic of the protocol's encoder ends the run as
  any other panic does.
\<close>

definition encode :: "Router \<Rightarrow> request \<Rightarrow> response_writer \<Rightarrow> int \<Rightarrow> goerror option \<Rightarrow> rvalue option
    \<Rightarrow> event list \<times> (panic + response_writer)" where
  "encode r req w code err v =
     ([Encode code err v], EncodeServerResponse (protocol r) req w code err v)"

definition respond :: "Router \<Rightarrow> request \<Rightarrow> response_writer \<Rightarrow> rvalue list
    \<Rightarrow> event list \<times> (panic + response_writer)" where
  "respond r req w ret =
     (if length ret = 1 then
        (case Interface (ret ! 0) of
           Some err \<Rightarrow>
             (case as_error err of Inl p \<Rightarrow> ([], Inl p) | Inr e \<Rightarrow> encode r req w 0 (Some e) None)
         | None \<Rightarrow> encode r req w 0 None None)
      else if length ret = 2 then
        (case Interface (ret ! 1) of
           Some err \<Rightarrow>
             (case as_error err of Inl p \<Rightarrow> ([], Inl p) | Inr e \<Rightarrow> encode r req w 0 (Some e) None)
         | None \<Rightarrow>
             (if Type (ret ! 0) = Some statusCodeType then
                (case Value_Int (ret ! 0) of
                   Inl p \<Rightarrow> ([], Inl p)
                 | Inr code \<Rightarrow> encode r req w code None None)
              else encode r req w 0 None (Interface (ret ! 0))))
      else if length ret = 3 then
        (case Interface (ret ! 2) of
           Some err \<Rightarrow>
             (case as_error err of Inl p \<Rightarrow> ([], Inl p) | Inr e \<Rightarrow> encode r req w 0 (Some e) None)
         | None \<Rightarrow>
             (case Value_Int (ret ! 1) of
                Inl p \<Rightarrow> ([], Inl p)
              | Inr code \<Rightarrow> encode r req w code None (Interface (ret ! 0))))
      else ([], Inr w))"

text \<open>The closure that \<^verbatim>\<open>buildHandler\<close> returns (lines 174 to 215).\<close>

definition dispatcher :: "stdlib \<Rightarrow> Router \<Rightarrow> func \<Rightarrow> paramBuilder list \<Rightarrow> HandlerFunc" where
  "dispatcher L r fv builders = (\<lambda>w req.
     (case run_builders builders 0 req of
        (tr, Inl err) \<Rightarrow>
          (tr @ [Encode StatusUnprocessableEntity (Some err) None],
           returnError r req w StatusUnprocessableEntity err)
      | (tr, Inr params) \<Rightarrow>
          (case Call L fv params of
             Inl p \<Rightarrow> (tr, Inl p)
           | Inr ret \<Rightarrow>
               (case respond r req w ret of (tr2, res) \<Rightarrow> (tr @ Invoke params # tr2, res)))))"

definition buildHandler ::
  "stdlib \<Rightarrow> Router \<Rightarrow> string \<Rightarrow> string \<Rightarrow> func \<Rightarrow> panic + Router \<times> HandlerFunc" where
  "buildHandler L r meth pth f =
     (let r1 = r\<lparr>routes := routes r @ [\<lparr>route_method = meth, route_path = pth, route_handler = f\<rparr>]\<rparr>
      in if length (Out f) = 0 then Inl NoReturnValues
         else if Out f ! (length (Out f) - 1) \<noteq> errorType then Inl LastReturnNotError
         else
           (case build_params L r1 (path_params pth) (In f) 0 False [] of
              Inl p \<Rightarrow> Inl p
            | Inr builders \<Rightarrow> Inr (r1, dispatcher L r1 f builders)))"

definition Add :: "stdlib \<Rightarrow> Router \<Rightarrow> string \<Rightarrow> string \<Rightarrow> func \<Rightarrow> panic + Router" where
  "Add L r meth pth f =
     (case buildHandler L r meth pth f of
        Inl p \<Rightarrow> Inl p
      | Inr (r1, h) \<Rightarrow> Inr (r1\<lparr>router := router r1 @ [(meth, pth, h)]\<rparr>))"


section \<open>Example handlers, requests and library stand-ins\<close>

text \<open>
  Concrete inputs for the evaluations below. \<open>example_stdlib\<close> is one possible behaviour
  of the library parameters: no float parses, quoting adds the two quote marks,
  decoding keeps the payload as it is, every value that is not nil is written as \<^verbatim>\<open>{}\<close>
  and no type implements an interface.
\<close>

definition example_stdlib :: stdlib where
  "example_stdlib =
     \<lparr>ParseFloat = (\<lambda>s bitSize. Inl ErrSyntax),
      Quote = (\<lambda>s. CHR 0x22 # s @ [CHR 0x22]),
      Unmarshal = (\<lambda>payload t. (Obj payload, None)),
      Marshal = (\<lambda>v. ''{}''),
      Implements = (\<lambda>v t. False)\<rparr>"

definition empty_writer :: response_writer where
  "empty_writer = \<lparr>Header = [], Status = [], Written = []\<rparr>"

text \<open>\<^verbatim>\<open>GET /u/5\<close> on the pattern \<^verbatim>\<open>/u/:id\<close>, and a \<^verbatim>\<open>GET\<close> and a \<^verbatim>\<open>POST\<close> without payload.\<close>

definition get_id_5 :: request where
  "get_id_5 = \<lparr>Method = ''GET'', Query = [('':id'', ''5'')], Body = []\<rparr>"

definition get_empty :: request where
  "get_empty = \<lparr>Method = ''GET'', Query = [], Body = []\<rparr>"

definition post_empty :: request where
  "post_empty = \<lparr>Method = ''POST'', Query = [], Body = []\<rparr>"

text \<open>\<^verbatim>\<open>func() (int, int, int, error) { return 1, 1, 1, errors.New("boom") }\<close>\<close>

definition four_results :: func where
  "four_results =
     \<lparr>In = [], Out = [intType, intType, intType, errorType],
      Impl = (\<lambda>args k. if k = 3 then E (Errorf ''boom'') else I 1)\<rparr>"

text \<open>\<^verbatim>\<open>func() (string, string, error) { return "a", "a", nil }\<close>\<close>

definition string_status :: func where
  "string_status =
     \<lparr>In = [], Out = [stringType, stringType, errorType],
      Impl = (\<lambda>args k. if k = 2 then Nil else S ''a'')\<rparr>"

text \<open>\<^verbatim>\<open>func(id uint8) error { return nil }\<close>\<close>

definition uint8_handler :: func where
  "uint8_handler = \<lparr>In = [uint8Type], Out = [errorType], Impl = (\<lambda>args k. Nil)\<rparr>"

definition example_router :: Router where
  "example_router = New example_stdlib []"



text \<open>
  From the repository's test: \<^verbatim>\<open>func() error { return Errorf(http.StatusBadRequest, "invalid") }\<close>
  registered for \<^verbatim>\<open>GET /custom_error\<close>.
\<close>

definition custom_error :: func where
  "custom_error = \<lparr>In = [], Out = [errorType], Impl = (\<lambda>args k. E (ErrorResponse 400 ''invalid''))\<rparr>"

definition custom_error_router :: Router where
  "custom_error_router = example_router\<lparr>routes := routes example_router @
     [\<lparr>route_method = ''GET'', route_path = ''/custom_error'', route_handler = custom_error\<rparr>]\<rparr>"

text \<open>
  From the repository's test: \<^verbatim>\<open>func(id int) (int, error) { return id + 33, nil }\<close>
  registered for \<^verbatim>\<open>GET /integer/:id\<close>, with the requests \<^verbatim>\<open>/integer/10\<close> and \<^verbatim>\<open>/integer/abc\<close>.
\<close>

definition integer_handler :: func where
  "integer_handler =
     \<lparr>In = [intType], Out = [intType, errorType],
      Impl = (\<lambda>args k. if k = 0 then (case args of [Value t (I n)] \<Rightarrow> I (n + 33) | _ \<Rightarrow> Z) else Nil)\<rparr>"

definition integer_router :: Router where
  "integer_router = example_router\<lparr>routes := routes example_router @
     [\<lparr>route_method = ''GET'', route_path = ''/integer/:id'', route_handler = integer_handler\<rparr>]\<rparr>"

definition get_integer_10 :: request where
  "get_integer_10 = \<lparr>Method = ''GET'', Query = [('':id'', ''10'')], Body = []\<rparr>"

definition get_integer_abc :: request where
  "get_integer_abc = \<lparr>Method = ''GET'', Query = [('':id'', ''abc'')], Body = []\<rparr>"

section \<open>Vocabulary of the parameter classification\<close>

text \<open>
  The words of the specification's parameter rules, to state them by position. A
  parameter is a passthrough when its type is the context's or the request's; the
  slot of parameter \<open>i\<close> is the number of parameters before it that are not
  passthroughs, that is, its position among the parameters that need a binding source.
\<close>

definition passthrough :: "gotype \<Rightarrow> bool" where
  "passthrough t = (t = contextType \<or> t = requestType)"

definition slot :: "gotype list \<Rightarrow> nat \<Rightarrow> nat" where
  "slot pts i = length (filter (\<lambda>t. \<not> passthrough t) (take i pts))"

text \<open>
  \<^verbatim>\<open>func(ctx context.Context, parent string, todo *Todo) error { return nil }\<close> for
  \<^verbatim>\<open>POST /todo/:id/children\<close> (the README's \<^verbatim>\<open>AddChild\<close> with a context), and
  \<^verbatim>\<open>func(a *Todo, b *Todo) error { return nil }\<close> for \<^verbatim>\<open>POST /todo\<close>.
\<close>

definition add_child :: func where
  "add_child =
     \<lparr>In = [contextType, stringType, PtrTo (Struct ''Todo'')], Out = [errorType],
      Impl = (\<lambda>args k. Nil)\<rparr>"

definition children_router :: Router where
  "children_router = example_router\<lparr>routes := routes example_router @
     [\<lparr>route_method = ''POST'', route_path = ''/todo/:id/children'', route_handler = add_child\<rparr>]\<rparr>"

definition two_bodies :: func where
  "two_bodies =
     \<lparr>In = [PtrTo (Struct ''Todo''), PtrTo (Struct ''Todo'')], Out = [errorType],
      Impl = (\<lambda>args k. Nil)\<rparr>"

definition post_children_empty :: request where
  "post_children_empty = \<lparr>Method = ''POST'', Query = [('':id'', ''7'')], Body = []\<rparr>"

text \<open>
  The integer kinds a path parameter may have, each with its type variable and the bit
  size its case of \<^verbatim>\<open>pathParamBuilder\<close> passes to the parser (\<^verbatim>\<open>int\<close> and \<^verbatim>\<open>uint\<close> are 64
  bits wide).
\<close>

definition signed_types :: "(gotype \<times> nat) list" where
  "signed_types = [(intType, 64), (int8Type, 8), (int16Type, 16), (int32Type, 32), (int64Type, 64)]"

definition unsigned_types :: "(gotype \<times> nat) list" where
  "unsigned_types =
     [(uintType, 64), (uint8Type, 8), (uint16Type, 16), (uint32Type, 32), (uint64Type, 64)]"

text \<open>\<^verbatim>\<open>GET /i/-128\<close> and \<^verbatim>\<open>GET /i/255\<close> on a pattern with the segment \<^verbatim>\<open>:id\<close>.\<close>

definition get_id_minus_128 :: request where
  "get_id_minus_128 = \<lparr>Method = ''GET'', Query = [('':id'', ''-128'')], Body = []\<rparr>"

definition get_id_255 :: request where
  "get_id_255 = \<lparr>Method = ''GET'', Query = [('':id'', ''255'')], Body = []\<rparr>"

text \<open>The codes written in the result of a run: none when it ended in a panic.\<close>

definition statuses :: "panic + response_writer \<Rightarrow> int list" where
  "statuses res = (case res of Inl p \<Rightarrow> [] | Inr w \<Rightarrow> Status w)"

text \<open>
  A library whose JSON decoder fails with a structured error, as the \<^verbatim>\<open>UnmarshalJSON\<close>
  method of a body type may by returning \<^verbatim>\<open>rest.Errorf(400, "bad")\<close>; the README's
  \<^verbatim>\<open>func(todo *Todo) error { return nil }\<close> registered for \<^verbatim>\<open>POST /todo\<close>; and a \<^verbatim>\<open>POST\<close>
  with the payload \<^verbatim>\<open>{}\<close>.
\<close>

definition rejecting_stdlib :: stdlib where
  "rejecting_stdlib =
     example_stdlib\<lparr>Unmarshal := (\<lambda>payload t. (Z, Some (ErrorResponse 400 ''bad'')))\<rparr>"

definition rejecting_router :: Router where
  "rejecting_router = New rejecting_stdlib []"

definition create_todo :: func where
  "create_todo = \<lparr>In = [PtrTo (Struct ''Todo'')], Out = [errorType], Impl = (\<lambda>args k. Nil)\<rparr>"

definition create_router :: Router where
  "create_router = rejecting_router\<lparr>routes := routes rejecting_router @
     [\<lparr>route_method = ''POST'', route_path = ''/todo'', route_handler = create_todo\<rparr>]\<rparr>"

definition post_todo :: request where
  "post_todo = \<lparr>Method = ''POST'', Query = [], Body = ''{}''\<rparr>"

text \<open>
  \<^verbatim>\<open>func(ctx context.Context, name string) (string, error) { return name, nil }\<close>
  registered for \<^verbatim>\<open>GET /echo/:name\<close>, and the request \<^verbatim>\<open>GET /echo/bob\<close>.
\<close>

definition echo_handler :: func where
  "echo_handler =
     \<lparr>In = [contextType, stringType], Out = [stringType, errorType],
      Impl = (\<lambda>args k. if k = 0 then (case args of [c, Value t (S x)] \<Rightarrow> S x | _ \<Rightarrow> Z) else Nil)\<rparr>"

definition echo_router :: Router where
  "echo_router = example_router\<lparr>routes := routes example_router @
     [\<lparr>route_method = ''GET'', route_path = ''/echo/:name'', route_handler = echo_handler\<rparr>]\<rparr>"

definition get_echo_bob :: request where
  "get_echo_bob = \<lparr>Method = ''GET'', Query = [('':name'', ''bob'')], Body = []\<rparr>"

section \<open>Path parameters: the unsigned binders\<close>

lemmas strconv_eval = ParseUint_def ParseInt_def is_digit_def digit_val_def maxUint64_def

text \<open>
  Whatever the segment, an unsigned binder hands back the zero Value: on a parse error
  with the error, on success without one.
\<close>

lemma uint_param_Zero: "fst (uint_param t bitSize paramName req) = Zero"
  by (simp add: uint_param_def Let_def split: prod.splits option.splits)

text \<open>
  Claim C1 (round trip of scalar path parameters, the unsigned kinds in particular).
  The segment \<^verbatim>\<open>5\<close> is in the range of \<^verbatim>\<open>uint8\<close>, and the \<^verbatim>\<open>uint8\<close> binder returns the
  zero Value with no error instead of the value 5; the \<^verbatim>\<open>int8\<close> binder, whose code
  differs only in assigning \<^verbatim>\<open>v\<close> instead of redeclaring it, returns 5.
\<close>

theorem C1_unsigned_binder_loses_value:
  "(case pathParamBuilder L uint8Type ''id'' 0 of
      Inl p \<Rightarrow> False
    | Inr builder \<Rightarrow> builder get_id_5 = (Zero, None))
   \<and> (case pathParamBuilder L int8Type ''id'' 0 of
      Inl p \<Rightarrow> False
    | Inr builder \<Rightarrow> builder get_id_5 = (Value int8Type (I 5), None))"
  by (simp add: pathParamBuilder_def uint8Type_def int8Type_def uint_param_def int_param_def
      Query_Get_def get_id_5_def strconv_eval)

section \<open>Registration: the return signature\<close>

lemma buildHandler_no_results:
  "Out f = [] \<Longrightarrow> buildHandler L r meth pth f = Inl NoReturnValues"
  by (simp add: buildHandler_def Let_def)

lemma buildHandler_last_not_error:
  "Out f \<noteq> [] \<Longrightarrow> last (Out f) \<noteq> errorType \<Longrightarrow> buildHandler L r meth pth f = Inl LastReturnNotError"
  by (simp add: buildHandler_def Let_def last_conv_nth)

text \<open>
  Claim C2 (a handler with more than three results is refused at registration).
  \<open>Add\<close> accepts a handler with four results whose last is \<^verbatim>\<open>error\<close>: the only checks
  are that there is a result and that the last one is \<^verbatim>\<open>error\<close>.
\<close>

theorem C2_four_results_accepted:
  "\<not> isl (Add L r ''GET'' ''/four'' four_results)"
  by (simp add: Add_def buildHandler_def Let_def four_results_def errorType_def intType_def)

section \<open>The dispatcher can panic or write nothing\<close>

text \<open>
  Claim C9 (the dispatcher never panics and always writes a response, for every
  accepted signature). Three accepted routes where it does not: with a middle result
  that is not an integer \<^verbatim>\<open>ret[1].Int()\<close> panics after the handler returned; with four
  results no case of the switch applies, so nothing is written and the handler's error
  is dropped; with a \<^verbatim>\<open>uint8\<close> path parameter the binder's zero Value makes
  \<^verbatim>\<open>fv.Call\<close> panic before the handler runs.
\<close>

theorem C9_dispatcher_panics_or_is_silent:
  "(case buildHandler L r ''GET'' ''/s'' string_status of
      Inl p \<Rightarrow> False
    | Inr (r1, h) \<Rightarrow> h w req = ([Invoke []], Inl IntOfNonInt))
   \<and> (case buildHandler L r ''GET'' ''/four'' four_results of
      Inl p \<Rightarrow> False
    | Inr (r1, h) \<Rightarrow> h w req = ([Invoke []], Inr w))
   \<and> (case buildHandler L r ''GET'' ''/u/:id'' uint8_handler of
      Inl p \<Rightarrow> False
    | Inr (r1, h) \<Rightarrow> h w get_id_5 = ([Bind 0], Inl CallZeroValue))"
proof (intro conjI)
  show "case buildHandler L r ''GET'' ''/s'' string_status of
      Inl p \<Rightarrow> False
    | Inr (r1, h) \<Rightarrow> h w req = ([Invoke []], Inl IntOfNonInt)"
    by (simp add: buildHandler_def Let_def string_status_def dispatcher_def Call_def respond_def
        upt_rec errorType_def stringType_def is_int_kind_def)
  show "case buildHandler L r ''GET'' ''/four'' four_results of
      Inl p \<Rightarrow> False
    | Inr (r1, h) \<Rightarrow> h w req = ([Invoke []], Inr w)"
    by (simp add: buildHandler_def Let_def four_results_def dispatcher_def Call_def respond_def
        upt_rec errorType_def intType_def)
  show "case buildHandler L r ''GET'' ''/u/:id'' uint8_handler of
      Inl p \<Rightarrow> False
    | Inr (r1, h) \<Rightarrow> h w get_id_5 = ([Bind 0], Inl CallZeroValue)"
    by (simp add: buildHandler_def Let_def uint8_handler_def dispatcher_def Call_def
        path_params_def pathParamBuilder_def uint_param_def Query_Get_def get_id_5_def
        errorType_def uint8Type_def contextType_def requestType_def strconv_eval)
qed

section \<open>The default protocol's encode-response\<close>

lemmas status_defs = StatusOK_def StatusCreated_def StatusNoContent_def
  StatusInternalServerError_def StatusUnprocessableEntity_def

text \<open>
  The non-error branch, and the three shapes of the \<^verbatim>\<open>err != nil\<close> branch as one
  recursive call each.
\<close>

lemma default_EncodeServerResponse_nil:
  "default_EncodeServerResponse L req w c None v =
     (if (if c = 0 then (if Method req = ''POST'' then 201 else if v = None then 204 else 200) else c) < 100
         \<or> 999 < (if c = 0 then (if Method req = ''POST'' then 201 else if v = None then 204 else 200) else c)
      then Inl (InvalidWriteHeaderCode c)
      else Inr (w\<lparr>Header := Header w @ [(''Content-Type'', ''application/json'')],
                  Status := Status w @
                    [if c = 0 then (if Method req = ''POST'' then 201 else if v = None then 204 else 200)
                     else c],
                  Written := Written w @ [v]\<rparr>))"
  by (simp add: status_defs WriteHeader_def)

lemma default_EncodeServerResponse_error:
  "default_EncodeServerResponse L req w code (Some (ErrorResponse st msg)) v =
     default_EncodeServerResponse L req w st None
       (Some (Value errorResponsePtrType (E (ErrorResponse st msg))))"
  "default_EncodeServerResponse L req w code (Some (NumError fn num e)) v =
     default_EncodeServerResponse L req w (if code = 0 then 500 else code) None
       (Some (Value errorResponsePtrType
          (E (ErrorResponse (if code = 0 then 500 else code) (Error L (NumError fn num e))))))"
  "default_EncodeServerResponse L req w code (Some (Errorf s)) v =
     default_EncodeServerResponse L req w (if code = 0 then 500 else code) None
       (Some (Value errorResponsePtrType
          (E (ErrorResponse (if code = 0 then 500 else code) s))))"
  by (simp_all add: status_defs Let_def cong: sum.case_cong)

text \<open>
  Claim C5 as stated (nil error, status 0: 201 for a POST with a body, 204 when no body
  is present, 200 otherwise) fails for a POST without a body: the method is tested
  first, so the status is 201 and not 204.
\<close>

theorem C5_post_without_body_is_201:
  "statuses (default_EncodeServerResponse example_stdlib post_empty empty_writer 0 None None) = [201]
   \<and> statuses (default_EncodeServerResponse example_stdlib post_empty empty_writer 0 None None) \<noteq> [204]"
  by (simp add: post_empty_def empty_writer_def status_defs WriteHeader_def statuses_def)

text \<open>
  Claim C5 as amended: with a nil error and status 0 the final status is 201 for a POST
  whether or not a body is present, otherwise 204 when no body is present, otherwise
  200; the header, the status and the body are each written once.
\<close>

theorem C5_default_status:
  "default_EncodeServerResponse L req w 0 None v =
     Inr (w\<lparr>Header := Header w @ [(''Content-Type'', ''application/json'')],
       Status := Status w @ [if Method req = ''POST'' then 201 else if v = None then 204 else 200],
       Written := Written w @ [v]\<rparr>)"
  by (simp add: status_defs WriteHeader_def)

text \<open>
  Claim C6 (with a non-nil error, a structured ErrorResponse's own status is used
  verbatim as the HTTP status; any other error is wrapped with the given status, or 500
  when that is 0). For the ErrorResponse that \<^verbatim>\<open>Error(0, "x")\<close> makes, the recursive call
  gets status 0 and falls to the defaults of the non-error branch: the error is
  answered with the success status 200, the body saying status 0. The branch for any
  other error turns the same 0 into 500. For the ErrorResponse that \<^verbatim>\<open>Error(42, "x")\<close>
  makes, \<^verbatim>\<open>WriteHeader\<close> panics and nothing is written.
\<close>

theorem C6_error_status_not_verbatim:
  "(case default_EncodeServerResponse example_stdlib get_empty empty_writer 0
           (Some (ErrorResponse 0 ''x'')) None of
      Inl p \<Rightarrow> False
    | Inr w \<Rightarrow> Status w = [200]
        \<and> Written w = [Some (Value errorResponsePtrType (E (ErrorResponse 0 ''x'')))])
   \<and> (case default_EncodeServerResponse example_stdlib get_empty empty_writer 0
           (Some (Errorf ''x'')) None of
      Inl p \<Rightarrow> False
    | Inr w \<Rightarrow> Status w = [500]
        \<and> Written w = [Some (Value errorResponsePtrType (E (ErrorResponse 500 ''x'')))])
   \<and> default_EncodeServerResponse example_stdlib get_empty empty_writer 0
           (Some (ErrorResponse 42 ''x'')) None = Inl (InvalidWriteHeaderCode 42)"
  by (simp add: get_empty_def empty_writer_def status_defs WriteHeader_def)

section \<open>Facts about registration and the binder loop\<close>

lemma buildHandler_Inr:
  assumes "buildHandler L r meth pth f = Inr (r1, h)"
  shows "\<exists>builders. build_params L r1 (path_params pth) (In f) 0 False [] = Inr builders
           \<and> h = dispatcher L r1 f builders"
    and "protocol r1 = protocol r"
    and "Out f \<noteq> []"
    and "Out f ! (length (Out f) - 1) = errorType"
  using assms
  by (auto simp: buildHandler_def Let_def split: if_splits sum.splits)

lemma build_params_length:
  "build_params L r params pts k hb acc = Inr bs \<Longrightarrow> length bs = length acc + length pts"
  by (induction pts arbitrary: k hb acc) (auto split: if_splits sum.splits)

lemma run_builders_fail:
  "i < length bs \<Longrightarrow> \<forall>j<i. snd ((bs ! j) req) = None \<Longrightarrow> snd ((bs ! i) req) = Some e
     \<Longrightarrow> run_builders bs k req = (map Bind [k..<k + Suc i], Inl e)"
proof (induction bs arbitrary: i k)
  case Nil
  then show ?case by simp
next
  case (Cons b bs)
  show ?case
  proof (cases i)
    case 0
    with Cons.prems show ?thesis
      by (cases "b req") simp
  next
    case (Suc i')
    with Cons.prems have b: "snd (b req) = None" by auto
    from Suc Cons.prems have "run_builders bs (Suc k) req = (map Bind [Suc k..<Suc k + Suc i'], Inl e)"
      by (intro Cons.IH) auto
    with b Suc show ?thesis
      by (cases "b req") (simp add: upt_conv_Cons)
  qed
qed

lemma run_builders_Inl:
  "run_builders bs k req = (tr, Inl e) \<Longrightarrow>
     \<exists>i<length bs. tr = map Bind [k..<k + Suc i] \<and> snd ((bs ! i) req) = Some e
        \<and> (\<forall>j<i. snd ((bs ! j) req) = None)"
proof (induction bs arbitrary: k tr)
  case Nil
  then show ?case by simp
next
  case (Cons b bs)
  obtain v oe where b: "b req = (v, oe)" by (cases "b req")
  show ?case
  proof (cases oe)
    case (Some e')
    with b Cons.prems have "tr = [Bind k]" "e' = e" by auto
    with b Some show ?thesis by (intro exI[of _ 0]) simp
  next
    case None
    obtain tr' res where rb: "run_builders bs (Suc k) req = (tr', res)"
      by (cases "run_builders bs (Suc k) req")
    with b None Cons.prems have res: "res = Inl e" and tr: "tr = Bind k # tr'"
      by (auto split: sum.splits)
    from Cons.IH[OF rb[unfolded res]] obtain i where i: "i < length bs"
      "tr' = map Bind [Suc k..<Suc k + Suc i]" "snd ((bs ! i) req) = Some e"
      "\<forall>j<i. snd ((bs ! j) req) = None" by blast
    show ?thesis
    proof (intro exI[of _ "Suc i"] conjI)
      show "Suc i < length (b # bs)" using i by simp
      show "tr = map Bind [k..<k + Suc (Suc i)]" using tr i by (simp add: upt_conv_Cons)
      show "snd (((b # bs) ! Suc i) req) = Some e" using i by simp
      show "\<forall>j<Suc i. snd (((b # bs) ! j) req) = None"
        using i b None by (auto simp: less_Suc_eq_0_disj)
    qed
  qed
qed

lemma run_builders_Inr:
  "run_builders bs k req = (tr, Inr ps) \<Longrightarrow>
     tr = map Bind [k..<k + length bs] \<and> ps = map (\<lambda>b. fst (b req)) bs
       \<and> (\<forall>i<length bs. snd ((bs ! i) req) = None)"
proof (induction bs arbitrary: k tr ps)
  case Nil
  then show ?case by simp
next
  case (Cons b bs)
  obtain v oe where b: "b req = (v, oe)" by (cases "b req")
  obtain tr' res where rb: "run_builders bs (Suc k) req = (tr', res)"
    by (cases "run_builders bs (Suc k) req")
  from Cons.prems b rb obtain ps' where oe: "oe = None" and res: "res = Inr ps'"
    and tr: "tr = Bind k # tr'" and ps: "ps = v # ps'"
    by (cases oe; cases res) auto
  from Cons.IH[OF rb[unfolded res]] have ih: "tr' = map Bind [Suc k..<Suc k + length bs]"
    "ps' = map (\<lambda>b. fst (b req)) bs" "\<forall>i<length bs. snd ((bs ! i) req) = None" by auto
  have "[k..<k + length (b # bs)] = k # [Suc k..<Suc k + length bs]"
    using upt_conv_Cons[of k "k + length (b # bs)"] by simp
  then have "tr = map Bind [k..<k + length (b # bs)]" using ih tr by simp
  moreover have "ps = map (\<lambda>b. fst (b req)) (b # bs)" using ih ps b by simp
  moreover have "\<forall>i<length (b # bs). snd (((b # bs) ! i) req) = None"
    using ih b oe by (auto simp: less_Suc_eq_0_disj)
  ultimately show ?case by blast
qed

lemma respond_no_Invoke: "Invoke a \<notin> set (fst (respond r req w ret))"
  by (auto simp: respond_def encode_def split: option.splits sum.splits)

lemma dispatcher_Invoke:
  assumes "Invoke params \<in> set (fst (dispatcher L r f bs w req))"
  shows "run_builders bs 0 req = (map Bind [0..<length bs], Inr params)
          \<and> (\<exists>ret. Call L f params = Inr ret)"
proof -
  obtain tr res where rb: "run_builders bs 0 req = (tr, res)"
    by (cases "run_builders bs 0 req")
  show ?thesis
  proof (cases res)
    case (Inl e)
    from run_builders_Inl[OF rb[unfolded Inl]] obtain i where "tr = map Bind [0..<0 + Suc i]" by blast
    with assms rb Inl show ?thesis by (auto simp: dispatcher_def)
  next
    case (Inr ps)
    from run_builders_Inr[OF rb[unfolded Inr]] have tr: "tr = map Bind [0..<length bs]" by simp
    show ?thesis
    proof (cases "Call L f ps")
      case (Inl p)
      with assms rb Inr tr show ?thesis by (auto simp: dispatcher_def)
    next
      case r: (Inr ret)
      obtain tr2 res2 where rs: "respond r req w ret = (tr2, res2)" by (cases "respond r req w ret")
      have "Invoke params \<notin> set tr2" using respond_no_Invoke[of params r req w ret] rs by simp
      with assms rb Inr tr r rs have "ps = params" by (auto simp: dispatcher_def)
      with rb Inr tr r show ?thesis by auto
    qed
  qed
qed

lemma Call_Inr:
  "Call L f params = Inr ret \<Longrightarrow> ret = map (\<lambda>k. Value (Out f ! k) (Impl f params k)) [0..<length (Out f)]"
  by (auto simp: Call_def split: if_splits)

section \<open>The repository's test route \<^verbatim>\<open>/integer/:id\<close>\<close>

lemmas example_defs = example_router_def New_def example_stdlib_def empty_writer_def

lemma integer_reg: "buildHandler example_stdlib example_router ''GET'' ''/integer/:id'' integer_handler
   = Inr (integer_router, dispatcher example_stdlib integer_router integer_handler [int_param intType 64 ''id''])"
  by (simp add: buildHandler_def Let_def integer_handler_def integer_router_def path_params_def
      pathParamBuilder_def intType_def errorType_def contextType_def requestType_def)

lemma integer_10:
  "dispatcher example_stdlib integer_router integer_handler [int_param intType 64 ''id''] empty_writer get_integer_10
   = ([Bind 0, Invoke [Value intType (I 10)], Encode 0 None (Some (Value intType (I 43)))],
      Inr \<lparr>Header = [(''Content-Type'', ''application/json'')], Status = [200],
           Written = [Some (Value intType (I 43))]\<rparr>)"
  by (simp add: dispatcher_def int_param_def Query_Get_def get_integer_10_def strconv_eval
      Call_def integer_handler_def respond_def encode_def upt_rec intType_def errorType_def
      statusCodeType_def integer_router_def example_defs DefaultProtocol_def status_defs
      AssignableTo_def WriteHeader_def)

text \<open>
  A route with a context and a string parameter: the handler is called with the
  request's context and the segment as it is, and the string it returns is the body.
\<close>

lemma echo_reg:
  "buildHandler example_stdlib example_router ''GET'' ''/echo/:name'' echo_handler
   = Inr (echo_router, dispatcher example_stdlib echo_router echo_handler
       [context_param, string_param ''name''])"
  by (simp add: buildHandler_def Let_def echo_handler_def echo_router_def path_params_def
      pathParamBuilder_def stringType_def errorType_def contextType_def requestType_def)

lemma echo_bob:
  "dispatcher example_stdlib echo_router echo_handler [context_param, string_param ''name'']
     empty_writer get_echo_bob
   = ([Bind 0, Bind 1, Invoke [Value contextType Ctx, Value stringType (S ''bob'')],
       Encode 0 None (Some (Value stringType (S ''bob'')))],
      Inr \<lparr>Header = [(''Content-Type'', ''application/json'')], Status = [200],
           Written = [Some (Value stringType (S ''bob''))]\<rparr>)"
  by (simp add: dispatcher_def context_param_def string_param_def Query_Get_def get_echo_bob_def
      Call_def echo_handler_def respond_def encode_def upt_rec stringType_def errorType_def
      contextType_def statusCodeType_def echo_router_def example_defs DefaultProtocol_def
      status_defs AssignableTo_def WriteHeader_def)

section \<open>Binder failures\<close>

text \<open>
  Claim C3 as stated (the first binder failure produces an HTTP 422 response) fails
  under the default protocol when the binder's error is itself an ErrorResponse: the
  body binder returns the decoder's error unchanged, and the default protocol answers a
  structured error with that error's own status, here 400.
\<close>

theorem C3_structured_binder_error_is_400:
  "buildHandler rejecting_stdlib rejecting_router ''POST'' ''/todo'' create_todo
     = Inr (create_router,
            dispatcher rejecting_stdlib create_router create_todo [body_param create_router (Struct ''Todo'')])
   \<and> dispatcher rejecting_stdlib create_router create_todo [body_param create_router (Struct ''Todo'')]
         empty_writer post_todo
     = ([Bind 0, Encode 422 (Some (ErrorResponse 400 ''bad'')) None],
        Inr \<lparr>Header = [(''Content-Type'', ''application/json'')], Status = [400],
             Written = [Some (Value errorResponsePtrType (E (ErrorResponse 400 ''bad'')))]\<rparr>)
   \<and> statuses (snd (dispatcher rejecting_stdlib create_router create_todo
         [body_param create_router (Struct ''Todo'')] empty_writer post_todo)) \<noteq> [422]"
proof -
  have reg: "buildHandler rejecting_stdlib rejecting_router ''POST'' ''/todo'' create_todo
     = Inr (create_router,
            dispatcher rejecting_stdlib create_router create_todo [body_param create_router (Struct ''Todo'')])"
    by (simp add: buildHandler_def Let_def create_todo_def create_router_def path_params_def
        errorType_def contextType_def requestType_def)
  have run: "dispatcher rejecting_stdlib create_router create_todo [body_param create_router (Struct ''Todo'')]
         empty_writer post_todo
     = ([Bind 0, Encode 422 (Some (ErrorResponse 400 ''bad'')) None],
        Inr \<lparr>Header = [(''Content-Type'', ''application/json'')], Status = [400],
             Written = [Some (Value errorResponsePtrType (E (ErrorResponse 400 ''bad'')))]\<rparr>)"
    by (simp add: dispatcher_def body_param_def create_router_def rejecting_router_def New_def
        DefaultProtocol_def default_DecodeClientRequest_def rejecting_stdlib_def example_stdlib_def
        post_todo_def empty_writer_def returnError_def status_defs WriteHeader_def)
  show ?thesis
    unfolding run using reg by (simp add: statuses_def)
qed

text \<open>
  Claim C3 as amended. For a registered route with binders \<open>builders\<close>, if binder \<open>i\<close> is the
  first to fail on a request, with error \<open>e\<close>, then the dispatcher ran the binders 0 to
  \<open>i\<close> in order and then asked the protocol for an error response with status 422 and
  the error \<open>e\<close>, with no body: the handler was not invoked and no later binder ran.
  Under the default protocol the response has status 422 and the error's text as its
  message whenever \<open>e\<close> is not itself an ErrorResponse (the numeric parsers' and the
  JSON decoder's own errors are not).
\<close>

theorem C3_first_binder_failure:
  assumes reg: "buildHandler L r meth pth f = Inr (r1, h)"
      and bs: "build_params L r1 (path_params pth) (In f) 0 False [] = Inr builders"
      and i: "i < length builders"
      and before: "\<forall>j<i. snd ((builders ! j) req) = None"
      and fails: "snd ((builders ! i) req) = Some e"
  shows "h w req = (map Bind [0..<Suc i] @ [Encode 422 (Some e) None],
                    EncodeServerResponse (protocol r) req w 422 (Some e) None)
       \<and> (\<forall>a. Invoke a \<notin> set (fst (h w req)))
       \<and> (\<forall>j>i. Bind j \<notin> set (fst (h w req)))
       \<and> (protocol r = DefaultProtocol L \<longrightarrow> (\<forall>st msg. e \<noteq> ErrorResponse st msg) \<longrightarrow>
            EncodeServerResponse (protocol r) req w 422 (Some e) None =
              Inr (w\<lparr>Header := Header w @ [(''Content-Type'', ''application/json'')],
                Status := Status w @ [422],
                Written := Written w @ [Some (Value errorResponsePtrType (E (ErrorResponse 422 (Error L e))))]\<rparr>))"
proof -
  from buildHandler_Inr(1)[OF reg] bs have h: "h = dispatcher L r1 f builders" by auto
  have p: "protocol r1 = protocol r" by (rule buildHandler_Inr(2)[OF reg])
  have rb: "run_builders builders 0 req = (map Bind [0..<Suc i], Inl e)"
    using run_builders_fail[OF i before fails, of 0] by simp
  have run: "h w req = (map Bind [0..<Suc i] @ [Encode 422 (Some e) None],
                    EncodeServerResponse (protocol r) req w 422 (Some e) None)"
    unfolding h dispatcher_def using rb p
    by (simp add: returnError_def StatusUnprocessableEntity_def)
  have noinv: "\<forall>a. Invoke a \<notin> set (fst (h w req))"
    unfolding run by auto
  have nobind: "\<forall>j>i. Bind j \<notin> set (fst (h w req))"
    unfolding run by auto
  have dflt: "protocol r = DefaultProtocol L \<longrightarrow> (\<forall>st msg. e \<noteq> ErrorResponse st msg) \<longrightarrow>
            EncodeServerResponse (protocol r) req w 422 (Some e) None =
              Inr (w\<lparr>Header := Header w @ [(''Content-Type'', ''application/json'')],
                Status := Status w @ [422],
                Written := Written w @ [Some (Value errorResponsePtrType (E (ErrorResponse 422 (Error L e))))]\<rparr>)"
    by (cases e)
      (simp_all add: DefaultProtocol_def Let_def status_defs WriteHeader_def)
  from run noinv nobind dflt show ?thesis by blast
qed

theorem C3_witness:
  "buildHandler example_stdlib example_router ''GET'' ''/integer/:id'' integer_handler
     = Inr (integer_router, dispatcher example_stdlib integer_router integer_handler [int_param intType 64 ''id''])
   \<and> snd (int_param intType 64 ''id'' get_integer_abc) = Some (NumError ''ParseInt'' ''abc'' ErrSyntax)
   \<and> dispatcher example_stdlib integer_router integer_handler [int_param intType 64 ''id''] empty_writer get_integer_abc
     = ([Bind 0, Encode 422 (Some (NumError ''ParseInt'' ''abc'' ErrSyntax)) None],
        Inr \<lparr>Header = [(''Content-Type'', ''application/json'')], Status = [422],
             Written = [Some (Value errorResponsePtrType (E (ErrorResponse 422
               (''strconv.ParseInt: parsing '' @ [CHR 0x22] @ ''abc'' @ [CHR 0x22] @ '': invalid syntax''))))]\<rparr>)"
proof -
  have bs: "build_params example_stdlib integer_router (path_params ''/integer/:id'') (In integer_handler) 0 False []
     = Inr [int_param intType 64 ''id'']"
    by (simp add: integer_handler_def path_params_def
      pathParamBuilder_def intType_def contextType_def requestType_def)
  have i: "0 < length [int_param intType 64 ''id'']" by simp
  have before: "\<forall>j<0. snd (([int_param intType 64 ''id''] ! j) get_integer_abc) = None" by simp
  have fails: "snd (([int_param intType 64 ''id''] ! 0) get_integer_abc) = Some (NumError ''ParseInt'' ''abc'' ErrSyntax)"
    by (simp add: int_param_def Query_Get_def get_integer_abc_def strconv_eval)
  have dflt: "protocol example_router = DefaultProtocol example_stdlib"
    by (simp add: example_router_def New_def)
  note t = C3_first_binder_failure[OF integer_reg bs i before fails, of empty_writer]
  from t fails dflt integer_reg show ?thesis
    by (simp add: empty_writer_def example_stdlib_def upt_rec)
qed

section \<open>Interpreting the handler's results\<close>

text \<open>
  Claim C4. For a registered route whose handler has one, two or three results, if the
  handler was invoked and its last result is a non-nil error \<open>e\<close>, the dispatcher asks
  the protocol to encode status 0 with \<open>e\<close> and no body, whatever the other results are.
\<close>

theorem C4_handler_error_wins:
  assumes reg: "buildHandler L r meth pth f = Inr (r1, h)"
      and arity: "length (Out f) \<le> 3"
      and inv: "Invoke params \<in> set (fst (h w req))"
      and err: "Impl f params (length (Out f) - 1) = E e"
  shows "h w req = (map Bind [0..<length (In f)] @ [Invoke params, Encode 0 (Some e) None],
                    EncodeServerResponse (protocol r) req w 0 (Some e) None)"
proof -
  from buildHandler_Inr(1)[OF reg] obtain builders where
    bs: "build_params L r1 (path_params pth) (In f) 0 False [] = Inr builders"
    and h: "h = dispatcher L r1 f builders" by blast
  have p: "protocol r1 = protocol r" by (rule buildHandler_Inr(2)[OF reg])
  have len: "length builders = length (In f)" using build_params_length[OF bs] by simp
  from dispatcher_Invoke[OF inv[unfolded h]] obtain ret where
    rb: "run_builders builders 0 req = (map Bind [0..<length builders], Inr params)"
    and call: "Call L f params = Inr ret" by blast
  have ret: "ret = map (\<lambda>k. Value (Out f ! k) (Impl f params k)) [0..<length (Out f)]"
    by (rule Call_Inr[OF call])
  have n0: "Out f \<noteq> []" by (rule buildHandler_Inr(3)[OF reg])
  have lastt: "Out f ! (length (Out f) - 1) = errorType" by (rule buildHandler_Inr(4)[OF reg])
  have lret: "length ret = length (Out f)" using ret by simp
  have lastv: "ret ! (length (Out f) - 1) = Value errorType (E e)"
    using ret n0 lastt err by simp
  have cases: "length (Out f) = 1 \<or> length (Out f) = 2 \<or> length (Out f) = 3"
  proof -
    have "0 < length (Out f)" using n0 by simp
    with arity show ?thesis by arith
  qed
  have resp: "respond r1 req w ret = encode r1 req w 0 (Some e) None"
    using cases lret lastv by (auto simp: respond_def errorType_def)
  show ?thesis
    unfolding h dispatcher_def using rb call resp p len
    by (simp add: encode_def)
qed

theorem C4_witness:
  "buildHandler example_stdlib example_router ''GET'' ''/custom_error'' custom_error
     = Inr (custom_error_router, dispatcher example_stdlib custom_error_router custom_error [])
   \<and> length (Out custom_error) \<le> 3
   \<and> Impl custom_error [] (length (Out custom_error) - 1) = E (ErrorResponse 400 ''invalid'')
   \<and> dispatcher example_stdlib custom_error_router custom_error [] empty_writer get_empty
     = ([Invoke [], Encode 0 (Some (ErrorResponse 400 ''invalid'')) None],
        Inr \<lparr>Header = [(''Content-Type'', ''application/json'')], Status = [400],
             Written = [Some (Value errorResponsePtrType (E (ErrorResponse 400 ''invalid'')))]\<rparr>)"
proof -
  have reg: "buildHandler example_stdlib example_router ''GET'' ''/custom_error'' custom_error
     = Inr (custom_error_router, dispatcher example_stdlib custom_error_router custom_error [])"
    by (simp add: buildHandler_def Let_def custom_error_def custom_error_router_def errorType_def)
  have arity: "length (Out custom_error) \<le> 3" by (simp add: custom_error_def)
  have inv: "Invoke [] \<in> set (fst (dispatcher example_stdlib custom_error_router custom_error [] empty_writer get_empty))"
    by (simp add: dispatcher_def Call_def custom_error_def split: prod.splits)
  have err: "Impl custom_error [] (length (Out custom_error) - 1) = E (ErrorResponse 400 ''invalid'')"
    by (simp add: custom_error_def)
  note t = C4_handler_error_wins[OF reg arity inv err]
  from t reg arity err show ?thesis
    by (simp add: custom_error_def example_defs DefaultProtocol_def status_defs WriteHeader_def)
qed






section \<open>The parameter loop of registration\<close>

text \<open>
  The accumulated \<^verbatim>\<open>builders\<close> only ever grow at the end, so a run of the loop from any
  list of builders is the run from the empty list with that list in front.
\<close>

lemma build_params_append:
  "build_params L r params pts k hb (acc @ acc') =
     (case build_params L r params pts k hb acc' of Inl p \<Rightarrow> Inl p | Inr bs \<Rightarrow> Inr (acc @ bs))"
proof (induction pts arbitrary: k hb acc')
  case Nil
  then show ?case by simp
next
  case (Cons pt pts)
  have step: "build_params L r params pts k' hb' ((acc @ acc') @ [b]) =
     (case build_params L r params pts k' hb' (acc' @ [b]) of Inl p \<Rightarrow> Inl p | Inr bs \<Rightarrow> Inr (acc @ bs))"
    for k' hb' b
    using Cons.IH[of k' hb' "acc' @ [b]"] by simp
  show ?case
    by (simp add: step del: append_assoc split: sum.splits)
qed

lemma build_params_single:
  "build_params L r params pts k hb [b] =
     (case build_params L r params pts k hb [] of Inl p \<Rightarrow> Inl p | Inr bs \<Rightarrow> Inr (b # bs))"
proof -
  have "build_params L r params pts k hb ([b] @ []) =
     (case build_params L r params pts k hb [] of Inl p \<Rightarrow> Inl p | Inr bs \<Rightarrow> Inr ([b] @ bs))"
    by (rule build_params_append)
  then show ?thesis by (simp only: append_Nil2 append_Cons append_Nil)
qed

lemma build_params_Cons:
  assumes "build_params L r params (pt # pts) k hb [] = Inr bs"
  obtains
    (ctx) bs' where "pt = contextType" "build_params L r params pts k hb [] = Inr bs'"
      "bs = context_param # bs'"
  | (rqs) bs' where "pt \<noteq> contextType" "pt = requestType"
      "build_params L r params pts k hb [] = Inr bs'" "bs = request_param # bs'"
  | (seg) b bs' where "\<not> passthrough pt" "k < length params"
      "pathParamBuilder L pt (params ! k) k = Inr b"
      "build_params L r params pts (Suc k) hb [] = Inr bs'" "bs = b # bs'"
  | (bdy) bs' where "\<not> passthrough pt" "length params \<le> k" "\<not> hb"
      "build_params L r params pts k True [] = Inr bs'"
      "bs = body_param r (if Kind pt = KPtr then Elem pt else pt) # bs'"
proof (cases "pt = contextType")
  case True
  with assms ctx show ?thesis
    by (auto simp: build_params_single split: sum.splits)
next
  case nc: False
  show ?thesis
  proof (cases "pt = requestType")
    case True
    with assms nc rqs show ?thesis
      by (auto simp: build_params_single split: sum.splits)
  next
    case nr: False
    from nc nr have np: "\<not> passthrough pt" by (simp add: passthrough_def)
    show ?thesis
    proof (cases "k < length params")
      case True
      with assms nc nr np seg show ?thesis
        by (auto simp: build_params_single split: sum.splits)
    next
      case False
      with assms nc nr np bdy show ?thesis
        by (auto simp: build_params_single split: sum.splits if_splits)
    qed
  qed
qed

lemma slot_0: "slot pts 0 = 0"
  by (simp add: slot_def)

lemma slot_Suc: "slot (pt # pts) (Suc i) = (if passthrough pt then 0 else 1) + slot pts i"
  by (simp add: slot_def)

lemma passthrough_context: "passthrough contextType"
  by (simp add: passthrough_def)

lemma passthrough_request: "passthrough requestType"
  by (simp add: passthrough_def)

lemma context_not_request: "contextType \<noteq> requestType"
  by (simp add: contextType_def requestType_def)

lemma build_params_context:
  "build_params L r params pts k hb [] = Inr bs \<Longrightarrow> i < length pts \<Longrightarrow> pts ! i = contextType
     \<Longrightarrow> bs ! i = context_param"
proof (induction pts arbitrary: k hb bs i)
  case Nil
  then show ?case by simp
next
  case (Cons pt pts)
  show ?case
  proof (cases i)
    case 0
    with Cons.prems(3) have "pt = contextType" by simp
    with Cons.prems(1) 0 show ?thesis
      by (elim build_params_Cons) (simp_all add: passthrough_context)
  next
    case (Suc i')
    with Cons.prems have i': "i' < length pts" "pts ! i' = contextType" by simp_all
    from Cons.prems(1) show ?thesis
      by (elim build_params_Cons) (simp_all add: Suc Cons.IH[OF _ i'])
  qed
qed

lemma build_params_request:
  "build_params L r params pts k hb [] = Inr bs \<Longrightarrow> i < length pts \<Longrightarrow> pts ! i = requestType
     \<Longrightarrow> bs ! i = request_param"
proof (induction pts arbitrary: k hb bs i)
  case Nil
  then show ?case by simp
next
  case (Cons pt pts)
  show ?case
  proof (cases i)
    case 0
    with Cons.prems(3) have "pt = requestType" by simp
    with Cons.prems(1) 0 show ?thesis
      by (elim build_params_Cons) (use context_not_request in \<open>auto simp: passthrough_request\<close>)
  next
    case (Suc i')
    with Cons.prems have i': "i' < length pts" "pts ! i' = requestType" by simp_all
    from Cons.prems(1) show ?thesis
      by (elim build_params_Cons) (simp_all add: Suc Cons.IH[OF _ i'])
  qed
qed

lemma build_params_path:
  "build_params L r params pts k hb [] = Inr bs \<Longrightarrow> i < length pts \<Longrightarrow> \<not> passthrough (pts ! i)
     \<Longrightarrow> k + slot pts i < length params
     \<Longrightarrow> pathParamBuilder L (pts ! i) (params ! (k + slot pts i)) (k + slot pts i) = Inr (bs ! i)"
proof (induction pts arbitrary: k hb bs i)
  case Nil
  then show ?case by simp
next
  case (Cons pt pts)
  show ?case
  proof (cases i)
    case 0
    with Cons.prems have np: "\<not> passthrough pt" and k: "k < length params"
      by (simp_all add: slot_0)
    from Cons.prems(1) show ?thesis
    proof (cases rule: build_params_Cons)
      case (seg b bs')
      with 0 show ?thesis by (simp add: slot_0)
    qed (use np k passthrough_context passthrough_request in auto)
  next
    case (Suc i')
    with Cons.prems have i': "i' < length pts" "\<not> passthrough (pts ! i')" by simp_all
    from Cons.prems(4) Suc have sl: "k + ((if passthrough pt then 0 else 1) + slot pts i') < length params"
      by (simp add: slot_Suc)
    from Cons.prems(1) show ?thesis
    proof (cases rule: build_params_Cons)
      case (ctx bs')
      with sl Cons.IH[OF ctx(2) i'] Suc show ?thesis
        by (simp add: slot_Suc passthrough_context)
    next
      case (rqs bs')
      with sl Cons.IH[OF rqs(3) i'] Suc show ?thesis
        by (simp add: slot_Suc passthrough_request)
    next
      case (seg b bs')
      with sl Cons.IH[OF seg(4) i'] Suc show ?thesis
        by (simp add: slot_Suc)
    next
      case (bdy bs')
      with sl show ?thesis by simp
    qed
  qed
qed

lemma build_params_body:
  "build_params L r params pts k hb [] = Inr bs \<Longrightarrow> i < length pts \<Longrightarrow> \<not> passthrough (pts ! i)
     \<Longrightarrow> length params \<le> k + slot pts i \<Longrightarrow> k \<le> length params
     \<Longrightarrow> \<not> hb \<and> k + slot pts i = length params
         \<and> bs ! i = body_param r (if Kind (pts ! i) = KPtr then Elem (pts ! i) else pts ! i)"
proof (induction pts arbitrary: k hb bs i)
  case Nil
  then show ?case by simp
next
  case (Cons pt pts)
  show ?case
  proof (cases i)
    case 0
    with Cons.prems have np: "\<not> passthrough pt" and k: "length params \<le> k"
      by (simp_all add: slot_0)
    from Cons.prems(1) show ?thesis
    proof (cases rule: build_params_Cons)
      case (bdy bs')
      with 0 Cons.prems(5) show ?thesis by (simp add: slot_0)
    qed (use np k passthrough_context passthrough_request in auto)
  next
    case (Suc i')
    with Cons.prems have i': "i' < length pts" "\<not> passthrough (pts ! i')" by simp_all
    from Cons.prems(4) Suc have sl: "length params \<le> k + ((if passthrough pt then 0 else 1) + slot pts i')"
      by (simp add: slot_Suc)
    from Cons.prems(1) show ?thesis
    proof (cases rule: build_params_Cons)
      case (ctx bs')
      with sl Cons.IH[OF ctx(2) i' _ Cons.prems(5)] Suc show ?thesis
        by (simp add: slot_Suc passthrough_context)
    next
      case (rqs bs')
      with sl Cons.IH[OF rqs(3) i' _ Cons.prems(5)] Suc show ?thesis
        by (simp add: slot_Suc passthrough_request)
    next
      case (seg b bs')
      with sl Cons.IH[OF seg(4) i', of] Suc show ?thesis
        by (simp add: slot_Suc)
    next
      case (bdy bs')
      with Cons.prems(5) have "length params \<le> k + slot pts i'" by simp
      from Cons.IH[OF bdy(4) i' this Cons.prems(5)] show ?thesis by simp
    qed
  qed
qed

lemma build_params_count:
  "build_params L r params pts k hb [] = Inr bs \<Longrightarrow> k \<le> length params
     \<Longrightarrow> k + slot pts (length pts) \<le> length params + (if hb then 0 else 1)"
proof (induction pts arbitrary: k hb bs)
  case Nil
  then show ?case by (simp add: slot_0)
next
  case (Cons pt pts)
  from Cons.prems(1) show ?case
  proof (cases rule: build_params_Cons)
    case (ctx bs')
    with Cons.IH[OF ctx(2) Cons.prems(2)] show ?thesis
      by (simp add: slot_Suc passthrough_context)
  next
    case (rqs bs')
    with Cons.IH[OF rqs(3) Cons.prems(2)] show ?thesis
      by (simp add: slot_Suc passthrough_request)
  next
    case (seg b bs')
    with Cons.IH[OF seg(4)] show ?thesis
      by (simp add: slot_Suc)
  next
    case (bdy bs')
    with Cons.IH[OF bdy(4) Cons.prems(2)] show ?thesis
      by (simp add: slot_Suc)
  qed
qed

lemmas type_defs = contextType_def requestType_def errorType_def stringType_def intType_def

text \<open>The README's \<^verbatim>\<open>AddChild\<close> route with a context parameter, evaluated.\<close>

lemma children_params: "path_params ''/todo/:id/children'' = [''id'']"
  by (simp add: path_params_def)

lemma children_reg:
  "buildHandler example_stdlib example_router ''POST'' ''/todo/:id/children'' add_child
     = Inr (children_router, dispatcher example_stdlib children_router add_child
         [context_param, string_param ''id'', body_param children_router (Struct ''Todo'')])"
  by (simp add: buildHandler_def Let_def add_child_def children_router_def children_params
      pathParamBuilder_def type_defs)

lemma children_slots:
  "slot (In add_child) (Suc 0) = 0" "slot (In add_child) (Suc (Suc 0)) = 1"
  "slot (In add_child) (length (In add_child)) = 2"
  by (simp_all add: slot_def add_child_def passthrough_def type_defs)

text \<open>
  Claim C8. Registration classifies the parameters in declared order. If more
  parameters that are not passthroughs are declared than the path has named segments
  plus one, \<open>Add\<close> panics. Otherwise, in the dispatcher of the registered route, a
  context or request parameter has the passthrough binder whatever its slot; any other
  parameter whose slot is below the number of named segments has the path binder of its
  type for the segment name at that position; and a parameter whose slot is not below
  it sits exactly at that number and is the body parameter, decoded into the pointed-to
  type when the declared type is a pointer.
\<close>

theorem C8_parameter_classification:
  "(length (path_params pth) + 1 < slot (In f) (length (In f)) \<longrightarrow> isl (Add L r meth pth f))
   \<and> (\<forall>r1 h. buildHandler L r meth pth f = Inr (r1, h) \<longrightarrow>
        (\<exists>builders. h = dispatcher L r1 f builders \<and> length builders = length (In f)
           \<and> (\<forall>i<length (In f).
                (In f ! i = contextType \<longrightarrow> builders ! i = context_param)
              \<and> (In f ! i = requestType \<longrightarrow> builders ! i = request_param)
              \<and> (\<not> passthrough (In f ! i) \<longrightarrow> slot (In f) i < length (path_params pth) \<longrightarrow>
                   pathParamBuilder L (In f ! i) (path_params pth ! slot (In f) i) (slot (In f) i)
                     = Inr (builders ! i))
              \<and> (\<not> passthrough (In f ! i) \<longrightarrow> length (path_params pth) \<le> slot (In f) i \<longrightarrow>
                   slot (In f) i = length (path_params pth)
                   \<and> builders ! i =
                       body_param r1 (if Kind (In f ! i) = KPtr then Elem (In f ! i) else In f ! i)))))"
proof (intro conjI impI allI)
  assume many: "length (path_params pth) + 1 < slot (In f) (length (In f))"
  show "isl (Add L r meth pth f)"
  proof (rule ccontr)
    assume "\<not> isl (Add L r meth pth f)"
    then obtain r1 h where reg: "buildHandler L r meth pth f = Inr (r1, h)"
      by (auto simp: Add_def split: sum.splits)
    from buildHandler_Inr(1)[OF reg] obtain builders where
      bs: "build_params L r1 (path_params pth) (In f) 0 False [] = Inr builders" by blast
    from build_params_count[OF bs] many show False by simp
  qed
next
  fix r1 h
  assume reg: "buildHandler L r meth pth f = Inr (r1, h)"
  from buildHandler_Inr(1)[OF reg] obtain builders where
    bs: "build_params L r1 (path_params pth) (In f) 0 False [] = Inr builders"
    and h: "h = dispatcher L r1 f builders" by blast
  have len: "length builders = length (In f)" using build_params_length[OF bs] by simp
  have roles: "(In f ! i = contextType \<longrightarrow> builders ! i = context_param)
              \<and> (In f ! i = requestType \<longrightarrow> builders ! i = request_param)
              \<and> (\<not> passthrough (In f ! i) \<longrightarrow> slot (In f) i < length (path_params pth) \<longrightarrow>
                   pathParamBuilder L (In f ! i) (path_params pth ! slot (In f) i) (slot (In f) i)
                     = Inr (builders ! i))
              \<and> (\<not> passthrough (In f ! i) \<longrightarrow> length (path_params pth) \<le> slot (In f) i \<longrightarrow>
                   slot (In f) i = length (path_params pth)
                   \<and> builders ! i =
                       body_param r1 (if Kind (In f ! i) = KPtr then Elem (In f ! i) else In f ! i))"
    if i: "i < length (In f)" for i
    using build_params_context[OF bs i] build_params_request[OF bs i]
      build_params_path[OF bs i] build_params_body[OF bs i]
    by simp
  from h len roles show "\<exists>builders. h = dispatcher L r1 f builders \<and> length builders = length (In f)
           \<and> (\<forall>i<length (In f).
                (In f ! i = contextType \<longrightarrow> builders ! i = context_param)
              \<and> (In f ! i = requestType \<longrightarrow> builders ! i = request_param)
              \<and> (\<not> passthrough (In f ! i) \<longrightarrow> slot (In f) i < length (path_params pth) \<longrightarrow>
                   pathParamBuilder L (In f ! i) (path_params pth ! slot (In f) i) (slot (In f) i)
                     = Inr (builders ! i))
              \<and> (\<not> passthrough (In f ! i) \<longrightarrow> length (path_params pth) \<le> slot (In f) i \<longrightarrow>
                   slot (In f) i = length (path_params pth)
                   \<and> builders ! i =
                       body_param r1 (if Kind (In f ! i) = KPtr then Elem (In f ! i) else In f ! i)))"
    by blast
qed

theorem C8_witness:
  "length (path_params ''/todo'') + 1 < slot (In two_bodies) (length (In two_bodies))
   \<and> isl (Add example_stdlib example_router ''POST'' ''/todo'' two_bodies)
   \<and> buildHandler example_stdlib example_router ''POST'' ''/todo/:id/children'' add_child
     = Inr (children_router, dispatcher example_stdlib children_router add_child
         [context_param, string_param ''id'', body_param children_router (Struct ''Todo'')])
   \<and> (\<exists>builders. dispatcher example_stdlib children_router add_child
          [context_param, string_param ''id'', body_param children_router (Struct ''Todo'')]
            = dispatcher example_stdlib children_router add_child builders
        \<and> length builders = 3
        \<and> builders ! 0 = context_param
        \<and> pathParamBuilder example_stdlib stringType ''id'' 0 = Inr (builders ! 1)
        \<and> builders ! 2 = body_param children_router (Struct ''Todo''))"
proof -
  have many: "length (path_params ''/todo'') + 1 < slot (In two_bodies) (length (In two_bodies))"
    by (simp add: path_params_def slot_def two_bodies_def passthrough_def type_defs)
  note t = C8_parameter_classification[of "''/todo''" two_bodies example_stdlib example_router "''POST''"]
  from t many have fails: "isl (Add example_stdlib example_router ''POST'' ''/todo'' two_bodies)"
    by blast
  note u = C8_parameter_classification[of "''/todo/:id/children''" add_child example_stdlib
      example_router "''POST''"]
  from u children_reg obtain builders where
    b: "dispatcher example_stdlib children_router add_child
          [context_param, string_param ''id'', body_param children_router (Struct ''Todo'')]
            = dispatcher example_stdlib children_router add_child builders"
      "length builders = length (In add_child)"
      "\<forall>i<length (In add_child).
                (In add_child ! i = contextType \<longrightarrow> builders ! i = context_param)
              \<and> (In add_child ! i = requestType \<longrightarrow> builders ! i = request_param)
              \<and> (\<not> passthrough (In add_child ! i) \<longrightarrow> slot (In add_child) i < length (path_params ''/todo/:id/children'') \<longrightarrow>
                   pathParamBuilder example_stdlib (In add_child ! i) (path_params ''/todo/:id/children'' ! slot (In add_child) i) (slot (In add_child) i)
                     = Inr (builders ! i))
              \<and> (\<not> passthrough (In add_child ! i) \<longrightarrow> length (path_params ''/todo/:id/children'') \<le> slot (In add_child) i \<longrightarrow>
                   slot (In add_child) i = length (path_params ''/todo/:id/children'')
                   \<and> builders ! i =
                       body_param children_router (if Kind (In add_child ! i) = KPtr then Elem (In add_child ! i) else In add_child ! i))"
    by blast
  have len: "length (In add_child) = 3" by (simp add: add_child_def)
  have np: "\<not> passthrough stringType" "\<not> passthrough (PtrTo (Struct ''Todo''))"
    by (simp_all add: passthrough_def type_defs)
  have nth: "In add_child ! 0 = contextType" "In add_child ! Suc 0 = stringType"
    "In add_child ! Suc (Suc 0) = PtrTo (Struct ''Todo'')"
    by (simp_all add: add_child_def)
  from b(3)[rule_format, of 0] have b0: "builders ! 0 = context_param"
    by (simp add: len nth)
  from b(3)[rule_format, of "Suc 0"]
  have b1: "pathParamBuilder example_stdlib stringType ''id'' 0 = Inr (builders ! Suc 0)"
    using children_slots(1) np by (simp add: len nth children_params)
  from b(3)[rule_format, of "Suc (Suc 0)"]
  have b2: "builders ! Suc (Suc 0) = body_param children_router (Struct ''Todo'')"
    using children_slots(2) np by (simp add: len nth children_params)
  from many fails children_reg b(1) b(2) len b0 b1 b2 show ?thesis
    by (auto simp: numeral_2_eq_2)
qed

section \<open>An empty payload for a route with a body parameter\<close>

lemma slot_reaches:
  "n < slot pts (length pts) \<Longrightarrow> \<exists>i<length pts. \<not> passthrough (pts ! i) \<and> slot pts i = n"
proof (induction pts arbitrary: n)
  case Nil
  then show ?case by (simp add: slot_0)
next
  case (Cons pt pts)
  show ?case
  proof (cases "passthrough pt")
    case True
    with Cons.prems have "n < slot pts (length pts)" by (simp add: slot_Suc)
    from Cons.IH[OF this] obtain i where "i < length pts" "\<not> passthrough (pts ! i)" "slot pts i = n"
      by blast
    with True show ?thesis by (intro exI[of _ "Suc i"]) (simp add: slot_Suc)
  next
    case np: False
    show ?thesis
    proof (cases n)
      case 0
      with np show ?thesis by (intro exI[of _ 0]) (simp add: slot_0)
    next
      case (Suc m)
      with Cons.prems np have "m < slot pts (length pts)" by (simp add: slot_Suc)
      from Cons.IH[OF this] obtain i where "i < length pts" "\<not> passthrough (pts ! i)" "slot pts i = m"
        by blast
      with np Suc show ?thesis by (intro exI[of _ "Suc i"]) (simp add: slot_Suc)
    qed
  qed
qed

lemma int_param_error:
  "snd (int_param t bitSize name req) = Some e \<Longrightarrow> \<exists>fn s c. e = NumError fn s c"
  by (auto simp: int_param_def Let_def split: prod.splits option.splits)

lemma uint_param_error:
  "snd (uint_param t bitSize name req) = Some e \<Longrightarrow> \<exists>fn s c. e = NumError fn s c"
  by (auto simp: uint_param_def Let_def split: prod.splits option.splits)

lemma float_param_error:
  "snd (float_param L t bitSize name req) = Some e \<Longrightarrow> \<exists>fn s c. e = NumError fn s c"
  by (auto simp: float_param_def Let_def split: sum.splits)

lemma string_param_error: "snd (string_param name req) = None"
  by (simp add: string_param_def)

lemma pathParamBuilder_error:
  assumes "pathParamBuilder L pt name idx = Inr b" and "snd (b req) = Some e"
  shows "\<exists>fn s c. e = NumError fn s c"
proof (cases "Kind pt")
qed (use assms in \<open>auto simp: pathParamBuilder_def string_param_error
      dest: int_param_error uint_param_error float_param_error\<close>)

lemma body_param_empty:
  "protocol r = DefaultProtocol L \<Longrightarrow> Body req = [] \<Longrightarrow> snd (body_param r t req) = Some (Errorf ''EOF'')"
  by (simp add: body_param_def DefaultProtocol_def default_DecodeClientRequest_def)

text \<open>
  Claim C10. For a registered route under the default protocol whose handler has a
  body parameter (more parameters that are not passthroughs than named segments), a
  request with an empty payload ends in a binder failure: the dispatcher asks for
  status 422, the default protocol writes 422 with the failing binder's text, and the
  handler is not invoked. This holds for every method and for pointer and non-pointer
  body types alike.
\<close>

theorem C10_empty_body_is_422:
  assumes reg: "buildHandler L r meth pth f = Inr (r1, h)"
      and dflt: "protocol r = DefaultProtocol L"
      and hasbody: "length (path_params pth) < slot (In f) (length (In f))"
      and empty: "Body req = []"
  shows "\<exists>tr e. h w req =
           (tr @ [Encode 422 (Some e) None],
            Inr (w\<lparr>Header := Header w @ [(''Content-Type'', ''application/json'')],
                   Status := Status w @ [422],
                   Written := Written w @
                     [Some (Value errorResponsePtrType (E (ErrorResponse 422 (Error L e))))]\<rparr>))
         \<and> (\<forall>a. Invoke a \<notin> set tr)"
proof -
  from buildHandler_Inr(1)[OF reg] obtain builders where
    bs: "build_params L r1 (path_params pth) (In f) 0 False [] = Inr builders"
    and h: "h = dispatcher L r1 f builders" by blast
  have p: "protocol r1 = DefaultProtocol L" using buildHandler_Inr(2)[OF reg] dflt by simp
  have len: "length builders = length (In f)" using build_params_length[OF bs] by simp
  from slot_reaches[OF hasbody] obtain i where i: "i < length (In f)"
    "\<not> passthrough (In f ! i)" "slot (In f) i = length (path_params pth)" by blast
  have "builders ! i = body_param r1 (if Kind (In f ! i) = KPtr then Elem (In f ! i) else In f ! i)"
    using build_params_body[OF bs i(1,2)] i(3) by simp
  then have fail_i: "snd ((builders ! i) req) = Some (Errorf ''EOF'')"
    using body_param_empty[OF p empty] by simp
  obtain tr res where rb: "run_builders builders 0 req = (tr, res)"
    by (cases "run_builders builders 0 req")
  have "\<exists>e. res = Inl e"
  proof (cases res)
    case (Inr ps)
    from run_builders_Inr[OF rb[unfolded Inr]] i(1) len have "snd ((builders ! i) req) = None" by simp
    with fail_i show ?thesis by simp
  qed simp
  then obtain e where res: "res = Inl e" by blast
  from run_builders_Inl[OF rb[unfolded res]] obtain i' where i': "i' < length builders"
    "tr = map Bind [0..<0 + Suc i']" "snd ((builders ! i') req) = Some e" by blast
  have i'f: "i' < length (In f)" using i'(1) len by simp
  have plain: "(\<exists>fn s c. e = NumError fn s c) \<or> e = Errorf ''EOF''"
  proof (cases "passthrough (In f ! i')")
    case True
    then have "snd ((builders ! i') req) = None"
      using build_params_context[OF bs i'f] build_params_request[OF bs i'f]
      by (auto simp: passthrough_def context_param_def request_param_def)
    with i'(3) show ?thesis by simp
  next
    case np: False
    show ?thesis
    proof (cases "slot (In f) i' < length (path_params pth)")
      case True
      with build_params_path[OF bs i'f np] have
        "pathParamBuilder L (In f ! i') (path_params pth ! slot (In f) i') (slot (In f) i') = Inr (builders ! i')"
        by simp
      from pathParamBuilder_error[OF this i'(3)] show ?thesis by simp
    next
      case False
      with build_params_body[OF bs i'f np] have
        "builders ! i' = body_param r1 (if Kind (In f ! i') = KPtr then Elem (In f ! i') else In f ! i')"
        by simp
      with body_param_empty[OF p empty] i'(3) show ?thesis by simp
    qed
  qed
  have enc: "default_EncodeServerResponse L req w 422 (Some e) None =
      Inr (w\<lparr>Header := Header w @ [(''Content-Type'', ''application/json'')],
        Status := Status w @ [422],
        Written := Written w @ [Some (Value errorResponsePtrType (E (ErrorResponse 422 (Error L e))))]\<rparr>)"
    using plain by (auto simp: Let_def WriteHeader_def)
  have run: "h w req = (tr @ [Encode 422 (Some e) None],
      Inr (w\<lparr>Header := Header w @ [(''Content-Type'', ''application/json'')],
        Status := Status w @ [422],
        Written := Written w @ [Some (Value errorResponsePtrType (E (ErrorResponse 422 (Error L e))))]\<rparr>))"
    unfolding h dispatcher_def using rb res p enc
    by (simp add: returnError_def StatusUnprocessableEntity_def DefaultProtocol_def)
  have "\<forall>a. Invoke a \<notin> set tr" using i'(2) by auto
  with run show ?thesis by blast
qed

theorem C10_witness:
  "buildHandler example_stdlib example_router ''POST'' ''/todo/:id/children'' add_child
     = Inr (children_router, dispatcher example_stdlib children_router add_child
         [context_param, string_param ''id'', body_param children_router (Struct ''Todo'')])
   \<and> protocol example_router = DefaultProtocol example_stdlib
   \<and> length (path_params ''/todo/:id/children'') < slot (In add_child) (length (In add_child))
   \<and> Body post_children_empty = []
   \<and> (\<exists>tr e. dispatcher example_stdlib children_router add_child
         [context_param, string_param ''id'', body_param children_router (Struct ''Todo'')]
         empty_writer post_children_empty =
           (tr @ [Encode 422 (Some e) None],
            Inr (empty_writer\<lparr>Header := Header empty_writer @ [(''Content-Type'', ''application/json'')],
                   Status := Status empty_writer @ [422],
                   Written := Written empty_writer @
                     [Some (Value errorResponsePtrType (E (ErrorResponse 422 (Error example_stdlib e))))]\<rparr>))
         \<and> (\<forall>a. Invoke a \<notin> set tr))"
proof -
  have dflt: "protocol example_router = DefaultProtocol example_stdlib"
    by (simp add: example_router_def New_def)
  have hasbody: "length (path_params ''/todo/:id/children'') < slot (In add_child) (length (In add_child))"
    using children_slots(3) by (simp add: children_params)
  have empty: "Body post_children_empty = []" by (simp add: post_children_empty_def)
  note t = C10_empty_body_is_422[OF children_reg dflt hasbody empty, of empty_writer]
  from children_reg dflt hasbody empty t show ?thesis by blast
qed

lemma children_run:
  "dispatcher example_stdlib children_router add_child
     [context_param, string_param ''id'', body_param children_router (Struct ''Todo'')]
     empty_writer post_children_empty =
   ([Bind 0, Bind 1, Bind 2, Encode 422 (Some (Errorf ''EOF'')) None],
    Inr \<lparr>Header = [(''Content-Type'', ''application/json'')], Status = [422],
         Written = [Some (Value errorResponsePtrType (E (ErrorResponse 422 ''EOF'')))]\<rparr>)"
  by (simp add: dispatcher_def context_param_def string_param_def body_param_def children_router_def
      example_defs DefaultProtocol_def default_DecodeClientRequest_def post_children_empty_def
      returnError_def status_defs WriteHeader_def)

section \<open>Round trip of the integer path parameters\<close>

text \<open>
  A segment is rendered in decimal (\<open>digits\<close> for an unsigned value, \<open>Itoa\<close> for a signed
  one). The parsers read back every value in range, so what the unsigned binders lose
  they lose after a successful parse.
\<close>

lemma digits_unfold_small: "n < 10 \<Longrightarrow> digits n = [char_of (48 + n)]"
  by (simp add: digits.simps[of n])

lemma digits_unfold_big:
  "\<not> n < 10 \<Longrightarrow> digits n = digits (n div 10) @ [char_of (48 + n mod 10)]"
  by (simp add: digits.simps[of n])

lemma of_char_digit: "(k::nat) < 10 \<Longrightarrow> (of_char (char_of (48 + k) :: char) :: nat) = 48 + k"
  by (simp add: of_char_of)

lemma is_digit_char: "(k::nat) < 10 \<Longrightarrow> is_digit (char_of (48 + k))"
  by (simp add: is_digit_def of_char_digit)

lemma digit_val_char: "(k::nat) < 10 \<Longrightarrow> digit_val (char_of (48 + k)) = k"
  by (simp add: digit_val_def of_char_digit)

lemma ParseUint_loop_append:
  "ParseUint_loop maxVal n (s @ [c]) =
     (case ParseUint_loop maxVal n s of
        (m, None) \<Rightarrow> ParseUint_loop maxVal m [c]
      | (m, Some e) \<Rightarrow> (m, Some e))"
  by (induction s arbitrary: n) (auto simp: Let_def)

lemma ParseUint_loop_digits:
  "n \<le> maxVal \<Longrightarrow> maxVal < 2 ^ 64 \<Longrightarrow> ParseUint_loop maxVal 0 (digits n) = (n, None)"
proof (induction n rule: digits.induct)
  case (1 n)
  show ?case
  proof (cases "n < 10")
    case True
    with "1.prems" show ?thesis
      by (simp add: digits_unfold_small is_digit_char digit_val_char maxUint64_def)
  next
    case False
    have le: "n div 10 \<le> maxVal" using "1.prems"(1) by simp
    have ih: "ParseUint_loop maxVal 0 (digits (n div 10)) = (n div 10, None)"
      by (rule "1.IH"[OF False le "1.prems"(2)])
    have small: "\<not> (maxUint64 div 10 + 1 \<le> n div 10)"
      using "1.prems" by (simp add: maxUint64_def)
    have m: "n mod 10 < 10" by simp
    have eq: "n div 10 * 10 + n mod 10 = n" by simp
    have nowrap: "(n div 10 * 10) mod 2 ^ 64 = n div 10 * 10"
      using "1.prems" by (intro mod_less) arith
    have nowrap2: "(n div 10 * 10 + n mod 10) mod 2 ^ 64 = n"
      using "1.prems" eq by simp
    show ?thesis
      using ih small "1.prems"(1) nowrap nowrap2
      by (simp add: digits_unfold_big[OF False] ParseUint_loop_append is_digit_char[OF m]
          digit_val_char[OF m] Let_def)
  qed
qed

lemma digits_not_Nil: "digits n \<noteq> []"
  by (cases "n < 10") (simp_all add: digits_unfold_small digits_unfold_big)

lemma hd_digits_is_digit: "is_digit (hd (digits n))"
proof (induction n rule: digits.induct)
  case (1 n)
  show ?case
  proof (cases "n < 10")
    case True
    then show ?thesis by (simp add: digits_unfold_small is_digit_char)
  next
    case False
    with "1.IH" show ?thesis
      by (simp add: digits_unfold_big digits_not_Nil)
  qed
qed

lemma ParseUint_digits:
  "n < 2 ^ bitSize \<Longrightarrow> bitSize \<le> 64 \<Longrightarrow> ParseUint (digits n) bitSize = (n, None)"
proof -
  assume n: "n < 2 ^ bitSize" and b: "bitSize \<le> 64"
  have "(2::nat) ^ bitSize \<le> 2 ^ 64" using b by (intro power_increasing) simp_all
  then have "(2::nat) ^ bitSize - 1 < 2 ^ 64" by (simp add: less_eq_Suc_le[symmetric] Suc_le_eq) 
  moreover have "n \<le> 2 ^ bitSize - 1" using n by simp
  ultimately show ?thesis
    by (simp add: ParseUint_def digits_not_Nil ParseUint_loop_digits)
qed

lemma not_sign_digit: "is_digit c \<Longrightarrow> c \<noteq> CHR ''+'' \<and> c \<noteq> CHR ''-''"
  by (auto simp: is_digit_def)

lemma ParseInt_Itoa:
  assumes lo: "- (2 ^ (bitSize - 1)) \<le> i" and hi: "i < 2 ^ (bitSize - 1)"
      and b1: "1 \<le> bitSize" and b64: "bitSize \<le> 64"
  shows "ParseInt (Itoa i) bitSize = (i, None)"
proof (cases "i < 0")
  case False
  define n where "n = nat i"
  have i: "i = int n" using False by (simp add: n_def)
  have n: "n < 2 ^ (bitSize - 1)" using hi i
    by (metis of_nat_less_iff of_nat_numeral of_nat_power)
  have le: "(2::nat) ^ (bitSize - 1) \<le> 2 ^ bitSize" by (intro power_increasing) simp_all
  have n2: "n < 2 ^ bitSize" by (rule order_less_le_trans[OF n le])
  have pu: "ParseUint (digits n) bitSize = (n, None)" by (rule ParseUint_digits[OF n2 b64])
  have hd: "hd (digits n) \<noteq> CHR ''+''" "hd (digits n) \<noteq> CHR ''-''"
    using not_sign_digit[OF hd_digits_is_digit[of n]] by simp_all
  show ?thesis
    using False pu hd n i
    by (simp add: ParseInt_def Itoa_def n_def[symmetric] digits_not_Nil Let_def)
next
  case True
  define n where "n = nat (- i)"
  have i: "i = - int n" using True by (simp add: n_def)
  have "int n \<le> 2 ^ (bitSize - 1)" using lo i by simp
  then have n: "n \<le> 2 ^ (bitSize - 1)"
    by (metis of_nat_le_iff of_nat_numeral of_nat_power)
  have lt: "(2::nat) ^ (bitSize - 1) < 2 ^ bitSize" using b1 by (intro power_strict_increasing) simp_all
  have n2: "n < 2 ^ bitSize" by (rule order_le_less_trans[OF n lt])
  have pu: "ParseUint (digits n) bitSize = (n, None)" by (rule ParseUint_digits[OF n2 b64])
  show ?thesis
    using True pu n i
    by (simp add: ParseInt_def Itoa_def n_def[symmetric] Let_def)
qed

text \<open>
  For the five signed kinds the binder returns the value that was rendered, for every
  value in the range of the kind.
\<close>

lemma Itoa_minus_128: "Itoa (- 128) = ''-128''"
  by code_simp

lemma digits_255: "digits 255 = ''255''"
  by code_simp

lemma signed_path_parameter_round_trip:
  assumes kind: "(pt, bitSize) \<in> set signed_types"
      and lo: "- (2 ^ (bitSize - 1)) \<le> i" and hi: "i < 2 ^ (bitSize - 1)"
      and seg: "Query_Get req (CHR '':'' # paramName) = Itoa i"
  shows "case pathParamBuilder L pt paramName paramIndex of
           Inl p \<Rightarrow> False
         | Inr builder \<Rightarrow> builder req = (Value pt (I i), None)"
proof -
  from kind have b: "1 \<le> bitSize" "bitSize \<le> 64"
    by (auto simp: signed_types_def)
  have p: "ParseInt (Itoa i) bitSize = (i, None)"
    by (rule ParseInt_Itoa[OF lo hi b])
  from kind have "pathParamBuilder L pt paramName paramIndex = Inr (int_param pt bitSize paramName)"
    by (auto simp: signed_types_def pathParamBuilder_def intType_def int8Type_def int16Type_def
        int32Type_def int64Type_def)
  then show ?thesis using seg p by (simp add: int_param_def)
qed

lemma signed_path_parameter_round_trip_example:
  "(int8Type, 8) \<in> set signed_types
   \<and> - (2 ^ (8 - 1)) \<le> (- 128 :: int) \<and> (- 128 :: int) < 2 ^ (8 - 1)
   \<and> Query_Get get_id_minus_128 (CHR '':'' # ''id'') = Itoa (- 128)
   \<and> (case pathParamBuilder example_stdlib int8Type ''id'' 0 of
         Inl p \<Rightarrow> False
       | Inr builder \<Rightarrow> builder get_id_minus_128 = (Value int8Type (I (- 128)), None))"
proof -
  have kind: "(int8Type, 8) \<in> set signed_types" by (simp add: signed_types_def)
  have lo: "- (2 ^ (8 - 1)) \<le> (- 128 :: int)" by simp
  have hi: "(- 128 :: int) < 2 ^ (8 - 1)" by simp
  have seg: "Query_Get get_id_minus_128 (CHR '':'' # ''id'') = Itoa (- 128)"
    by (simp add: Query_Get_def get_id_minus_128_def Itoa_minus_128)
  note t = signed_path_parameter_round_trip[OF kind lo hi seg, of example_stdlib 0]
  from kind lo hi seg t show ?thesis by blast
qed

text \<open>
  For the five unsigned kinds the parser reads the value back, and the binder still
  returns the zero Value without an error, for every value in the range of the kind.
\<close>

lemma unsigned_path_parameter_loses_value:
  assumes kind: "(pt, bitSize) \<in> set unsigned_types"
      and hi: "n < 2 ^ bitSize"
      and seg: "Query_Get req (CHR '':'' # paramName) = digits n"
  shows "ParseUint (Query_Get req (CHR '':'' # paramName)) bitSize = (n, None)
         \<and> (case pathParamBuilder L pt paramName paramIndex of
               Inl p \<Rightarrow> False
             | Inr builder \<Rightarrow> builder req = (Zero, None))"
proof -
  from kind have b: "bitSize \<le> 64"
    by (auto simp: unsigned_types_def)
  have p: "ParseUint (digits n) bitSize = (n, None)"
    by (rule ParseUint_digits[OF hi b])
  from kind have "pathParamBuilder L pt paramName paramIndex = Inr (uint_param pt bitSize paramName)"
    by (auto simp: unsigned_types_def pathParamBuilder_def uintType_def uint8Type_def uint16Type_def
        uint32Type_def uint64Type_def)
  then show ?thesis using seg p by (simp add: uint_param_def)
qed

lemma unsigned_path_parameter_loses_value_example:
  "(uint8Type, 8) \<in> set unsigned_types
   \<and> (255 :: nat) < 2 ^ 8
   \<and> Query_Get get_id_255 (CHR '':'' # ''id'') = digits 255
   \<and> ParseUint (Query_Get get_id_255 (CHR '':'' # ''id'')) 8 = (255, None)
   \<and> (case pathParamBuilder example_stdlib uint8Type ''id'' 0 of
         Inl p \<Rightarrow> False
       | Inr builder \<Rightarrow> builder get_id_255 = (Zero, None))"
proof -
  have kind: "(uint8Type, 8) \<in> set unsigned_types" by (simp add: unsigned_types_def)
  have hi: "(255 :: nat) < 2 ^ 8" by simp
  have seg: "Query_Get get_id_255 (CHR '':'' # ''id'') = digits 255"
    by (simp add: Query_Get_def get_id_255_def digits_255)
  note t = unsigned_path_parameter_loses_value[OF kind hi seg, of example_stdlib 0]
  from kind hi seg t show ?thesis by blast
qed

text \<open>A value that a signed binder returns is in the range of its bit size.\<close>

lemma signed_binder_value_in_range:
  assumes "int_param t bitSize paramName req = (Value t' (I n), None)"
  shows "- (2 ^ (bitSize - 1)) \<le> n \<and> n < 2 ^ (bitSize - 1)"
proof -
  from assms(1) have "ParseInt (Query_Get req (CHR '':'' # paramName)) bitSize = (n, None)"
    by (auto simp: int_param_def Let_def split: prod.splits option.splits)
  then consider (pos) un where "n = int un" "un < 2 ^ (bitSize - 1)"
    | (neg) un where "n = - int un" "un \<le> 2 ^ (bitSize - 1)"
    by (auto simp: ParseInt_def Let_def not_le not_less split: if_splits prod.splits)
  then show ?thesis
  proof cases
    case pos
    from pos(2) have "int un < int (2 ^ (bitSize - 1))" by (simp only: of_nat_less_iff)
    then have "int un < 2 ^ (bitSize - 1)" by simp
    moreover have "- (2 ^ (bitSize - 1)) \<le> (0::int)" by simp
    moreover have "0 \<le> int un" by simp
    ultimately show ?thesis unfolding pos(1) by linarith
  next
    case neg
    from neg(2) have "int un \<le> int (2 ^ (bitSize - 1))" by (simp only: of_nat_le_iff)
    then have "int un \<le> 2 ^ (bitSize - 1)" by simp
    moreover have "(0::int) < 2 ^ (bitSize - 1)" by simp
    moreover have "0 \<le> int un" by simp
    ultimately show ?thesis unfolding neg(1) by linarith
  qed
qed

end
